theory Spec2Isabelle
  imports Complex_Main "HOL-Library.Sublist"
begin

section \<open>Python values and the built-ins the sources use\<close>

text \<open>
  Exceptions are values: the class name and \<open>str(exc)\<close>. A function of the source that can
  raise returns \<open>exn + 'a\<close>, with \<open>Inl\<close> for the exception.
\<close>

datatype exn = Exn (exn_class: string) (exn_msg: string)

text \<open>
  A Python float is a finite value, an infinity or NaN. Finite values are kept as exact
  rationals: the rounding of an arithmetic result to the nearest double is not modelled.
  Comparisons follow IEEE 754: every comparison with NaN is false.
\<close>

datatype pyfloat = Finite rat | PosInf | NegInf | NaN

definition float_lt :: "pyfloat \<Rightarrow> pyfloat \<Rightarrow> bool" where
  "float_lt a b =
     (case (a, b) of
        (NaN, _) \<Rightarrow> False
      | (_, NaN) \<Rightarrow> False
      | (Finite x, Finite y) \<Rightarrow> x < y
      | (Finite x, PosInf) \<Rightarrow> True
      | (Finite x, NegInf) \<Rightarrow> False
      | (PosInf, _) \<Rightarrow> False
      | (NegInf, NegInf) \<Rightarrow> False
      | (NegInf, _) \<Rightarrow> True)"

text \<open>\<open>min(a, b)\<close> and \<open>max(a, b)\<close> of two arguments keep the first unless the second is
  strictly smaller (larger).\<close>

definition py_min :: "pyfloat \<Rightarrow> pyfloat \<Rightarrow> pyfloat" where
  "py_min a b = (if float_lt b a then b else a)"

definition py_max :: "pyfloat \<Rightarrow> pyfloat \<Rightarrow> pyfloat" where
  "py_max a b = (if float_lt a b then b else a)"

text \<open>\<open>float(n)\<close> of an int, also implicit in \<open>n / 1000.0\<close>: an int that rounds beyond the
  largest double raises OverflowError.\<close>

definition DBL_OVERFLOW :: int where
  "DBL_OVERFLOW = 2 ^ 1024 - 2 ^ 970"

definition float_of_int :: "int \<Rightarrow> exn + pyfloat" where
  "float_of_int n =
     (if \<bar>n\<bar> < DBL_OVERFLOW then Inr (Finite (of_int n))
      else Inl (Exn ''OverflowError'' ''int too large to convert to float''))"

text \<open>\<open>int(x)\<close> of a float truncates towards zero; infinities and NaN raise.\<close>

definition int_of_float :: "pyfloat \<Rightarrow> exn + int" where
  "int_of_float x =
     (case x of
        Finite q \<Rightarrow> Inr (if 0 \<le> q then \<lfloor>q\<rfloor> else \<lceil>q\<rceil>)
      | PosInf \<Rightarrow> Inl (Exn ''OverflowError'' ''cannot convert float infinity to integer'')
      | NegInf \<Rightarrow> Inl (Exn ''OverflowError'' ''cannot convert float infinity to integer'')
      | NaN \<Rightarrow> Inl (Exn ''ValueError'' ''cannot convert float NaN to integer''))"

text \<open>\<open>x / d\<close> for a finite non-zero divisor \<open>d\<close>.\<close>

definition float_div :: "pyfloat \<Rightarrow> rat \<Rightarrow> pyfloat" where
  "float_div x d =
     (case x of
        Finite q \<Rightarrow> Finite (q / d)
      | PosInf \<Rightarrow> (if 0 < d then PosInf else NegInf)
      | NegInf \<Rightarrow> (if 0 < d then NegInf else PosInf)
      | NaN \<Rightarrow> NaN)"

text \<open>\<open>str(n)\<close> of an int, as f-strings print it.\<close>

definition digit_char :: "nat \<Rightarrow> char" where
  "digit_char d = ''0123456789'' ! d"

fun str_nat :: "nat \<Rightarrow> string" where
  "str_nat n = (if n < 10 then [digit_char n] else str_nat (n div 10) @ [digit_char (n mod 10)])"

declare str_nat.simps [simp del]

definition str_int :: "int \<Rightarrow> string" where
  "str_int i = (if i < 0 then CHR ''-'' # str_nat (nat (- i)) else str_nat (nat i))"

subsection \<open>Strings\<close>

text \<open>
  A \<open>str\<close> is a \<open>string\<close>: the model covers the code points below 256 (Latin-1), where
  Python's whitespace (\<open>str.isspace\<close>) and line boundaries (\<open>str.splitlines\<close>) are the
  characters listed here; \<open>\r\n\<close> is one line boundary. The functions carry the names of the
  methods of \<open>str\<close>; \<open>contains sub s\<close> is \<open>sub in s\<close>.
\<close>

definition NL :: string where
  "NL = [CHR 0x0A]"

definition whitespace_chars :: "char list" where
  "whitespace_chars = [CHR 0x09, CHR 0x0A, CHR 0x0B, CHR 0x0C, CHR 0x0D, CHR 0x1C, CHR 0x1D,
                       CHR 0x1E, CHR 0x1F, CHR 0x20, CHR 0x85, CHR 0xA0]"

definition isspace :: "char \<Rightarrow> bool" where
  "isspace c = (c \<in> set whitespace_chars)"

definition linebreak_chars :: "char list" where
  "linebreak_chars = [CHR 0x0A, CHR 0x0B, CHR 0x0C, CHR 0x0D, CHR 0x1C, CHR 0x1D, CHR 0x1E,
                      CHR 0x85]"

definition is_linebreak :: "char \<Rightarrow> bool" where
  "is_linebreak c = (c \<in> set linebreak_chars)"

definition strip :: "string \<Rightarrow> string" where
  "strip s = rev (dropWhile isspace (rev (dropWhile isspace s)))"

definition startswith :: "string \<Rightarrow> string \<Rightarrow> bool" where
  "startswith s pre = prefix pre s"

definition endswith :: "string \<Rightarrow> string \<Rightarrow> bool" where
  "endswith s suf = prefix (rev suf) (rev s)"

fun splitlines_from :: "string \<Rightarrow> string \<Rightarrow> string list" where
  "splitlines_from cur [] = (if cur = [] then [] else [cur])"
| "splitlines_from cur [c] = (if is_linebreak c then [cur] else [cur @ [c]])"
| "splitlines_from cur (c # d # cs) =
     (if c = CHR 0x0D \<and> d = CHR 0x0A then cur # splitlines_from [] cs
      else if is_linebreak c then cur # splitlines_from [] (d # cs)
      else splitlines_from (cur @ [c]) (d # cs))"

definition splitlines :: "string \<Rightarrow> string list" where
  "splitlines s = splitlines_from [] s"

text \<open>\<open>s.split()\<close>: the maximal runs of non-whitespace.\<close>

fun split_from :: "string \<Rightarrow> string \<Rightarrow> string list" where
  "split_from cur [] = (if cur = [] then [] else [cur])"
| "split_from cur (c # cs) =
     (if isspace c then (if cur = [] then split_from [] cs else cur # split_from [] cs)
      else split_from (cur @ [c]) cs)"

definition split :: "string \<Rightarrow> string list" where
  "split s = split_from [] s"

fun join :: "string \<Rightarrow> string list \<Rightarrow> string" where
  "join sep [] = []"
| "join sep [x] = x"
| "join sep (x # y # ys) = x @ sep @ join sep (y # ys)"

text \<open>\<open>s.replace(old, new)\<close>: the occurrences of \<open>old\<close> found scanning from the left, without
  overlap.\<close>

function replace_from :: "string \<Rightarrow> string \<Rightarrow> string \<Rightarrow> string" where
  "replace_from old new [] = []"
| "replace_from old new (c # cs) =
     (if old \<noteq> [] \<and> prefix old (c # cs)
      then new @ replace_from old new (drop (length old) (c # cs))
      else c # replace_from old new cs)"
  by pat_completeness auto
termination
  by (relation "measure (\<lambda>(old, new, s). length s)") auto

definition replace :: "string \<Rightarrow> string \<Rightarrow> string \<Rightarrow> string" where
  "replace s old new =
     (if old = [] then new @ concat (map (\<lambda>c. c # new) s) else replace_from old new s)"

text \<open>\<open>sub in s\<close>.\<close>

fun contains :: "string \<Rightarrow> string \<Rightarrow> bool" where
  "contains sub [] = (sub = [])"
| "contains sub (c # cs) = (prefix sub (c # cs) \<or> contains sub cs)"

definition lower_char :: "char \<Rightarrow> char" where
  "lower_char c =
     (let n = (of_char c :: nat)
      in if (65 \<le> n \<and> n \<le> 90) \<or> (192 \<le> n \<and> n \<le> 222 \<and> n \<noteq> 215)
         then char_of (n + 32) else c)"

definition lower :: "string \<Rightarrow> string" where
  "lower s = map lower_char s"

definition isdigit :: "string \<Rightarrow> bool" where
  "isdigit s = (s \<noteq> [] \<and> list_all (\<lambda>c. c \<in> set (''0123456789'' @ [CHR 0xB2, CHR 0xB3, CHR 0xB9])) s)"

text \<open>A value is truthy in \<open>if x\<close>, \<open>x and y\<close>, \<open>x or y\<close>: for \<open>str | None\<close>, a non-empty string.\<close>

definition truthy :: "string option \<Rightarrow> bool" where
  "truthy s = (case s of None \<Rightarrow> False | Some t \<Rightarrow> t \<noteq> [])"

text \<open>The value of an optional string where the source tests it for truth before using it.\<close>

definition truthy_value :: "string option \<Rightarrow> string option" where
  "truthy_value s = (if truthy s then s else None)"

subsection \<open>JSON values and the library functions taken as parameters\<close>

text \<open>
  What \<open>json.loads\<close> returns. \<open>JObj\<close> holds the items of the dict (its keys are distinct);
  \<open>true\<close> and \<open>false\<close> are Python's \<open>bool\<close>, a subclass of \<open>int\<close>.
\<close>

datatype json = JNull | JBool bool | JInt int | JFloat pyfloat | JStr string
  | JArr "json list" | JObj "(string \<times> json) list"

text \<open>
  Functions of the standard library and of pydantic whose code is outside the repository
  are parameters of the model:
  \<^item> \<open>json_raw_decode\<close>: the value \<open>json.JSONDecoder().raw_decode(text)\<close> decodes at the
    start of \<open>text\<close>, \<open>None\<close> for JSONDecodeError;
  \<^item> \<open>int_of_str\<close>, \<open>float_of_str\<close>: \<open>int(s)\<close> and \<open>float(s)\<close> of a string, \<open>None\<close> for
    ValueError;
  \<^item> \<open>format_2f\<close>: the format \<open>{x:.2f}\<close>;
  \<^item> \<open>re_match\<close>: \<open>re.compile(pattern).match(line)\<close>, giving the match's groupdict;
  \<^item> \<open>shlex_quote\<close>: \<open>shlex.quote\<close>;
  \<^item> \<open>int_field\<close>, \<open>str_field\<close>, \<open>float_field\<close>, \<open>bool_field\<close>: pydantic's validation of a
    value for a field of type \<open>int | None\<close>, \<open>str | None\<close>, \<open>float | None\<close>, \<open>bool | None\<close>,
    \<open>None\<close> for ValidationError.
\<close>

record pylib =
  json_raw_decode :: "string \<Rightarrow> json option"
  int_of_str :: "string \<Rightarrow> int option"
  float_of_str :: "string \<Rightarrow> pyfloat option"
  format_2f :: "pyfloat \<Rightarrow> string"
  re_match :: "string \<Rightarrow> string \<Rightarrow> (string \<Rightarrow> string option) option"
  shlex_quote :: "string \<Rightarrow> string"
  int_field :: "json \<Rightarrow> int option option"
  str_field :: "json \<Rightarrow> string option option"
  float_field :: "json \<Rightarrow> pyfloat option option"
  bool_field :: "json \<Rightarrow> bool option option"

definition bind_e :: "exn + 'a \<Rightarrow> ('a \<Rightarrow> exn + 'b) \<Rightarrow> exn + 'b" where
  "bind_e m f = (case m of Inl e \<Rightarrow> Inl e | Inr a \<Rightarrow> f a)"

definition py_type_name :: "json \<Rightarrow> string" where
  "py_type_name v =
     (case v of JNull \<Rightarrow> ''NoneType'' | JBool b \<Rightarrow> ''bool'' | JInt n \<Rightarrow> ''int''
      | JFloat x \<Rightarrow> ''float'' | JStr s \<Rightarrow> ''str'' | JArr xs \<Rightarrow> ''list'' | JObj kvs \<Rightarrow> ''dict'')"

text \<open>\<open>obj.get(key)\<close>: only a dict has the method.\<close>

definition obj_get :: "json \<Rightarrow> string \<Rightarrow> exn + json" where
  "obj_get obj key =
     (case obj of
        JObj kvs \<Rightarrow> Inr (case map_of kvs key of None \<Rightarrow> JNull | Some v \<Rightarrow> v)
      | _ \<Rightarrow> Inl (Exn ''AttributeError''
                 ([CHR 0x27] @ py_type_name obj @ [CHR 0x27] @ '' object has no attribute ''
                  @ [CHR 0x27] @ ''get'' @ [CHR 0x27])))"

text \<open>\<open>int(v)\<close> of a decoded JSON value.\<close>

definition py_int :: "pylib \<Rightarrow> json \<Rightarrow> exn + int" where
  "py_int L v =
     (case v of
        JBool b \<Rightarrow> Inr (if b then 1 else 0)
      | JInt n \<Rightarrow> Inr n
      | JFloat x \<Rightarrow> int_of_float x
      | JStr s \<Rightarrow> (case int_of_str L s of
                     None \<Rightarrow> Inl (Exn ''ValueError'' ''invalid literal for int() with base 10'')
                   | Some n \<Rightarrow> Inr n)
      | _ \<Rightarrow> Inl (Exn ''TypeError''
                 (''int() argument must be a string, a bytes-like object or a real number, not ''
                  @ [CHR 0x27] @ py_type_name v @ [CHR 0x27])))"

section \<open>The models: app/servers/models.py and app/stats/models.py\<close>

text \<open>A field \<open>f\<close> of class \<open>C\<close> is the record field \<open>C_f\<close>.\<close>

record Server =
  Server_id :: string
  Server_name :: "string option"
  Server_host :: string
  Server_port :: int
  Server_user :: string
  Server_password :: "string option"
  Server_key_path :: "string option"
  Server_pm2_user :: "string option"
  Server_pm2_home :: "string option"
  Server_tags :: "string list"
  Server_enabled :: bool

record MemoryInfo =
  MemoryInfo_total_bytes :: "int option"
  MemoryInfo_used_bytes :: "int option"
  MemoryInfo_total_human :: string
  MemoryInfo_used_human :: string

record UptimeInfo =
  UptimeInfo_seconds :: "pyfloat option"
  UptimeInfo_human :: string

record DiskInfo =
  DiskInfo_mount :: string
  DiskInfo_total_bytes :: "int option"
  DiskInfo_used_bytes :: "int option"
  DiskInfo_total_human :: string
  DiskInfo_used_human :: string

record Pm2Process =
  Pm2Process_id :: "int option"
  Pm2Process_name :: "string option"
  Pm2Process_namespace :: "string option"
  Pm2Process_version :: "string option"
  Pm2Process_mode :: "string option"
  Pm2Process_pid :: "int option"
  Pm2Process_uptime :: "int option"
  Pm2Process_restarts :: "int option"
  Pm2Process_status :: "string option"
  Pm2Process_cpu :: "pyfloat option"
  Pm2Process_memory_bytes :: "int option"
  Pm2Process_user :: "string option"
  Pm2Process_watching :: "bool option"

record Pm2Info =
  Pm2Info_total_memory_bytes :: "int option"
  Pm2Info_processes :: "int option"
  Pm2Info_details :: "Pm2Process list option"
  Pm2Info_error :: "string option"

record SupervisorProcess =
  SupervisorProcess_name :: "string option"
  SupervisorProcess_state :: "string option"
  SupervisorProcess_pid :: "int option"
  SupervisorProcess_uptime :: "string option"
  SupervisorProcess_message :: "string option"
  SupervisorProcess_raw :: "string option"

record SupervisorInfo =
  SupervisorInfo_total :: "int option"
  SupervisorInfo_running :: "int option"
  SupervisorInfo_details :: "SupervisorProcess list option"

text \<open>The fields of \<open>HostStats\<close> as app/stats/models.py declares them (lines 64 to 76).\<close>

record HostStats =
  HostStats_server_id :: string
  HostStats_server_name :: "string option"
  HostStats_host :: string
  HostStats_user :: string
  HostStats_port :: int
  HostStats_tags :: "string list"
  HostStats_error :: "string option"
  HostStats_memory :: MemoryInfo
  HostStats_uptime :: UptimeInfo
  HostStats_disk :: DiskInfo
  HostStats_pm2 :: Pm2Info
  HostStats_supervisor :: SupervisorInfo

text \<open>
  Modelled from the spec: the class \<open>CpuInfo\<close>, which app/infra/ssh.py imports from
  app/stats/models.py and that file does not define. The spec: "CpuInfo: core count
  (nullable), usage percent (nullable), human string."
\<close>

record CpuInfo =
  CpuInfo_cores :: "int option"
  CpuInfo_usage_percent :: "pyfloat option"
  CpuInfo_usage_human :: string

text \<open>
  The call \<open>HostStats(server_id=..., ..., cpu=..., memory=..., ...)\<close> with the keywords that
  \<open>build_error_stats\<close> and \<open>collect_stats\<close> pass. \<open>cpu\<close> is not a field of the class: a
  pydantic model keeps its declared fields and ignores any other keyword.
\<close>

definition HostStats_init ::
  "string \<Rightarrow> string option \<Rightarrow> string \<Rightarrow> string \<Rightarrow> int \<Rightarrow> string list \<Rightarrow> string option
   \<Rightarrow> CpuInfo \<Rightarrow> MemoryInfo \<Rightarrow> UptimeInfo \<Rightarrow> DiskInfo \<Rightarrow> Pm2Info \<Rightarrow> SupervisorInfo \<Rightarrow> HostStats" where
  "HostStats_init server_id server_name host user port tags error cpu memory uptime disk pm2
     supervisor =
     \<lparr>HostStats_server_id = server_id, HostStats_server_name = server_name,
      HostStats_host = host, HostStats_user = user, HostStats_port = port,
      HostStats_tags = tags, HostStats_error = error, HostStats_memory = memory,
      HostStats_uptime = uptime, HostStats_disk = disk, HostStats_pm2 = pm2,
      HostStats_supervisor = supervisor\<rparr>"

section \<open>Remote command execution: app/infra/ssh.py\<close>

text \<open>
  The paramiko client and the host behind it are a parameter: a function that, in a state
  \<open>'w\<close> of the outside world, answers one \<open>exec_command\<close> request. The answer is what the
  reads of the channel give: the decoded output streams and the exit status; a
  \<open>socket.timeout\<close> while reading; or any other exception of \<open>exec_command\<close>, of the
  write to stdin or of the reads. The world records every request and every connection
  event in its trace.
\<close>

record SshResult =
  stdout :: string
  stderr :: string
  exit_code :: int

record exec_request =
  request_command :: string
  request_get_pty :: bool
  request_stdin :: string

datatype exec_outcome = Completed string string int | SocketTimeout | Raised exn

datatype event = Exec exec_request | Connect string | Close nat

record 'w world =
  remote :: 'w
  trace :: "event list"

type_synonym 'w client = "'w \<Rightarrow> exec_request \<Rightarrow> exec_outcome \<times> 'w"

type_synonym ('a, 'w) action = "'w world \<Rightarrow> (exn + 'a) \<times> 'w world"

definition bind_w :: "('a, 'w) action \<Rightarrow> ('a \<Rightarrow> ('b, 'w) action) \<Rightarrow> ('b, 'w) action" where
  "bind_w m f w = (case m w of (Inl e, w1) \<Rightarrow> (Inl e, w1) | (Inr a, w1) \<Rightarrow> f a w1)"

definition return_w :: "'a \<Rightarrow> ('a, 'w) action" where
  "return_w a w = (Inr a, w)"

definition lift_w :: "exn + 'a \<Rightarrow> ('a, 'w) action" where
  "lift_w x w = (x, w)"

definition exec_command :: "'w client \<Rightarrow> exec_request \<Rightarrow> 'w world \<Rightarrow> exec_outcome \<times> 'w world" where
  "exec_command client req w =
     (let (outcome, r) = client (remote w) req
      in (outcome, \<lparr>remote = r, trace = trace w @ [Exec req]\<rparr>))"

definition timeout_result :: SshResult where
  "timeout_result = \<lparr>stdout = [], stderr = ''command timeout'', exit_code = 124\<rparr>"

definition run_command :: "'w client \<Rightarrow> pylib \<Rightarrow> string \<Rightarrow> bool \<Rightarrow> bool \<Rightarrow> (SshResult, 'w) action" where
  "run_command client L command use_pty login_shell w =
     (let command1 = (if login_shell then ''bash -lc '' @ shlex_quote L command else command);
          (outcome, w1) = exec_command client
             \<lparr>request_command = command1, request_get_pty = use_pty, request_stdin = []\<rparr> w
      in case outcome of
           Completed out err exit_status \<Rightarrow>
             (Inr \<lparr>stdout = out, stderr = err, exit_code = exit_status\<rparr>, w1)
         | SocketTimeout \<Rightarrow> (Inr timeout_result, w1)
         | Raised e \<Rightarrow> (Inl e, w1))"

fun redact_lines :: "string \<Rightarrow> string list \<Rightarrow> string list" where
  "redact_lines secret [] = []"
| "redact_lines secret (line # rest) =
     (if strip line = secret then redact_lines secret rest
      else replace line secret ''[redacted]'' # redact_lines secret rest)"

definition redact_output :: "string \<Rightarrow> string option \<Rightarrow> string" where
  "redact_output text secret =
     (case secret of
        None \<Rightarrow> text
      | Some sec \<Rightarrow>
          if text = [] \<or> sec = [] then text
          else (let lines = splitlines text;
                    filtered = redact_lines sec lines;
                    result = join NL filtered
                in if endswith text NL then result @ NL else result))"

definition sudo_command_text :: "pylib \<Rightarrow> string \<Rightarrow> string \<Rightarrow> bool \<Rightarrow> string" where
  "sudo_command_text L command user login_shell =
     (let command1 = (if login_shell then ''bash -lc '' @ shlex_quote L command else command);
          sudo_inner = ''sudo -S -p '' @ [CHR 0x27, CHR 0x27] @ '' -u '' @ shlex_quote L user
                       @ '' /bin/sh -c '' @ shlex_quote L command1
      in ''stty -echo >/dev/null 2>&1 || true; '' @ sudo_inner @ ''; '' @ ''status=$?; ''
         @ ''stty echo >/dev/null 2>&1 || true; '' @ ''exit $status'')"

definition run_sudo_command ::
  "'w client \<Rightarrow> pylib \<Rightarrow> string \<Rightarrow> string \<Rightarrow> string \<Rightarrow> bool \<Rightarrow> (SshResult, 'w) action" where
  "run_sudo_command client L command password user login_shell w =
     (let (outcome, w1) = exec_command client
             \<lparr>request_command = sudo_command_text L command user login_shell,
              request_get_pty = True, request_stdin = password @ NL\<rparr> w
      in case outcome of
           Completed out err exit_status \<Rightarrow>
             (Inr \<lparr>stdout = redact_output out (Some password),
                   stderr = redact_output err (Some password),
                   exit_code = exit_status\<rparr>, w1)
         | SocketTimeout \<Rightarrow> (Inr timeout_result, w1)
         | Raised e \<Rightarrow> (Inl e, w1))"

text \<open>The request that \<open>run_sudo_command\<close> sends when it is called with
  \<open>login_shell=True\<close>, as every caller in the probes does: the password goes to stdin.\<close>

definition sudo_request :: "pylib \<Rightarrow> string \<Rightarrow> string \<Rightarrow> string \<Rightarrow> exec_request" where
  "sudo_request L command password user =
     \<lparr>request_command = sudo_command_text L command user True, request_get_pty = True,
      request_stdin = password @ NL\<rparr>"

subsection \<open>Formatting\<close>

definition units :: "string list" where
  "units = [''B'', ''KB'', ''MB'', ''GB'', ''TB'', ''PB'']"

fun format_bytes_loop :: "pylib \<Rightarrow> pyfloat \<Rightarrow> string list \<Rightarrow> exn + string" where
  "format_bytes_loop L size_f [] = Inr (format_2f L size_f @ '' PB'')"
| "format_bytes_loop L size_f (unit # rest) =
     (if float_lt size_f (Finite 1024) \<or> unit = last units
      then (if unit = ''B''
            then bind_e (int_of_float size_f) (\<lambda>n. Inr (str_int n @ '' '' @ unit))
            else Inr (format_2f L size_f @ '' '' @ unit))
      else format_bytes_loop L (float_div size_f 1024) rest)"

definition format_bytes :: "pylib \<Rightarrow> int option \<Rightarrow> exn + string" where
  "format_bytes L v =
     (case v of
        None \<Rightarrow> Inr ''n/a''
      | Some n \<Rightarrow> bind_e (float_of_int n) (\<lambda>size_f. format_bytes_loop L size_f units))"

definition format_seconds :: "pyfloat option \<Rightarrow> exn + string" where
  "format_seconds seconds =
     (case seconds of
        None \<Rightarrow> Inr ''n/a''
      | Some x \<Rightarrow>
          bind_e (int_of_float x) (\<lambda>remaining.
            (let days = remaining div 86400;
                 remaining1 = remaining mod 86400;
                 hours = remaining1 div 3600;
                 remaining2 = remaining1 mod 3600;
                 minutes = remaining2 div 60;
                 secs = remaining2 mod 60
             in Inr (if days \<noteq> 0
                     then str_int days @ ''d '' @ str_int hours @ ''h '' @ str_int minutes @ ''m''
                     else if hours \<noteq> 0 then str_int hours @ ''h '' @ str_int minutes @ ''m''
                     else if minutes \<noteq> 0 then str_int minutes @ ''m '' @ str_int secs @ ''s''
                     else str_int secs @ ''s''))))"

subsection \<open>The probes\<close>

text \<open>\<open>int(line.split()[1]) * 1024\<close>: IndexError without a second token, ValueError when it
  is not an integer literal.\<close>

definition second_token_kib :: "pylib \<Rightarrow> string \<Rightarrow> exn + int" where
  "second_token_kib L line =
     (case split line of
        a # b # rest \<Rightarrow>
          (case int_of_str L b of
             None \<Rightarrow> Inl (Exn ''ValueError'' ''invalid literal for int() with base 10'')
           | Some n \<Rightarrow> Inr (n * 1024))
      | _ \<Rightarrow> Inl (Exn ''IndexError'' ''list index out of range''))"

fun memory_lines ::
  "pylib \<Rightarrow> string list \<Rightarrow> int option \<Rightarrow> int option \<Rightarrow> exn + (int option \<times> int option)" where
  "memory_lines L [] mem_total mem_available = Inr (mem_total, mem_available)"
| "memory_lines L (line # rest) mem_total mem_available =
     (if startswith line ''MemTotal:''
      then bind_e (second_token_kib L line) (\<lambda>v. memory_lines L rest (Some v) mem_available)
      else if startswith line ''MemAvailable:''
      then bind_e (second_token_kib L line) (\<lambda>v. memory_lines L rest mem_total (Some v))
      else memory_lines L rest mem_total mem_available)"

definition fetch_memory :: "'w client \<Rightarrow> pylib \<Rightarrow> (int option \<times> int option, 'w) action" where
  "fetch_memory client L =
     bind_w (run_command client L ''cat /proc/meminfo'' False False) (\<lambda>result.
       if exit_code result \<noteq> 0 then return_w (None, None)
       else lift_w (bind_e (memory_lines L (splitlines (stdout result)) None None)
              (\<lambda>(mem_total, mem_available).
                 case (mem_total, mem_available) of
                   (Some t, Some a) \<Rightarrow> Inr (Some t, Some (t - a))
                 | _ \<Rightarrow> Inr (None, None))))"

definition fetch_uptime :: "'w client \<Rightarrow> pylib \<Rightarrow> (pyfloat option, 'w) action" where
  "fetch_uptime client L =
     bind_w (run_command client L ''cat /proc/uptime'' False False) (\<lambda>result.
       if exit_code result \<noteq> 0 then return_w None
       else return_w (case split (stdout result) of
                        [] \<Rightarrow> None
                      | tok # rest \<Rightarrow> float_of_str L tok))"

definition fetch_disk :: "'w client \<Rightarrow> pylib \<Rightarrow> (int option \<times> int option, 'w) action" where
  "fetch_disk client L =
     bind_w (run_command client L ''df -B1 /'' False False) (\<lambda>result.
       if exit_code result \<noteq> 0 then return_w (None, None)
       else (let lines = splitlines (stdout result)
             in if length lines < 2 then return_w (None, None)
                else (let parts = split (lines ! 1)
                      in if length parts < 6 then return_w (None, None)
                         else (case (int_of_str L (parts ! 1), int_of_str L (parts ! 2)) of
                                 (Some disk_total, Some disk_used) \<Rightarrow> return_w (Some disk_total, Some disk_used)
                               | _ \<Rightarrow> return_w (None, None)))))"

definition DQ :: string where
  "DQ = [CHR 0x22]"

definition cores_command :: string where
  "cores_command = ''command -v nproc >/dev/null 2>&1 && nproc || getconf _NPROCESSORS_ONLN''"

definition usage_script :: string where
  "usage_script =
     ''read cpu user nice system idle iowait irq softirq steal guest guest_nice < /proc/stat; ''
     @ ''total1=$((user+nice+system+idle+iowait+irq+softirq+steal)); ''
     @ ''idle1=$((idle+iowait)); ''
     @ ''sleep 0.5; ''
     @ ''read cpu user nice system idle iowait irq softirq steal guest guest_nice < /proc/stat; ''
     @ ''total2=$((user+nice+system+idle+iowait+irq+softirq+steal)); ''
     @ ''idle2=$((idle+iowait)); ''
     @ ''total=$((total2-total1)); ''
     @ ''idle=$((idle2-idle1)); ''
     @ ''if [ '' @ DQ @ ''$total'' @ DQ @ '' -gt 0 ]; then ''
     @ ''usage=$(awk '' @ DQ @ ''BEGIN {print (1-($idle/$total))*100}'' @ DQ @ ''); ''
     @ ''printf '' @ DQ @ ''%.2f'' @ DQ @ '' '' @ DQ @ ''$usage'' @ DQ @ ''; ''
     @ ''else echo '' @ DQ @ ''0.00'' @ DQ @ ''; ''
     @ ''fi''"

definition fetch_cpu :: "'w client \<Rightarrow> pylib \<Rightarrow> (int option \<times> pyfloat option, 'w) action" where
  "fetch_cpu client L =
     bind_w (run_command client L cores_command False False) (\<lambda>cores_result.
       (let cores = (if exit_code cores_result = 0
                     then int_of_str L (strip (stdout cores_result)) else None)
        in bind_w (run_command client L usage_script False True) (\<lambda>usage_result.
             (let usage_percent = (if exit_code usage_result = 0
                                   then float_of_str L (strip (stdout usage_result)) else None)
              in return_w (cores, usage_percent)))))"

subsection \<open>The pm2 probe\<close>

text \<open>The scan of \<open>extract_json_array\<close>: at every \<open>[\<close>, the rest of the text is decoded; the
  first decoded value that is a list is returned.\<close>

fun extract_json_array :: "pylib \<Rightarrow> string \<Rightarrow> json list option" where
  "extract_json_array L [] = None"
| "extract_json_array L (c # cs) =
     (if c \<noteq> CHR ''['' then extract_json_array L cs
      else (case json_raw_decode L (c # cs) of
              None \<Rightarrow> extract_json_array L cs
            | Some (JArr xs) \<Rightarrow> Some xs
            | Some v \<Rightarrow> extract_json_array L cs))"

definition pm2_bootstrap :: string where
  "pm2_bootstrap =
     ''set -o pipefail; ''
     @ ''[ -f ~/.bashrc ] && . ~/.bashrc >/dev/null 2>&1; ''
     @ ''[ -f ~/.profile ] && . ~/.profile >/dev/null 2>&1; ''
     @ ''[ -s ~/.nvm/nvm.sh ] && . ~/.nvm/nvm.sh >/dev/null 2>&1; ''"

definition build_pm2_script :: "pylib \<Rightarrow> string option \<Rightarrow> string" where
  "build_pm2_script L pm2_home =
     (let env_parts = (case truthy_value pm2_home of
                         Some h \<Rightarrow> [''PM2_HOME='' @ shlex_quote L h] | None \<Rightarrow> []);
          env_prefix = join '' '' env_parts
      in strip (pm2_bootstrap @ env_prefix @ '' pm2 jlist''))"

text \<open>\<open>int(memory) if memory is not None else None\<close> under \<open>except (TypeError, ValueError)\<close>.\<close>

definition mem_bytes_of :: "pylib \<Rightarrow> json \<Rightarrow> exn + int option" where
  "mem_bytes_of L memory =
     (if memory = JNull then Inr None
      else (case py_int L memory of
              Inr n \<Rightarrow> Inr (Some n)
            | Inl e \<Rightarrow> if exn_class e = ''TypeError'' \<or> exn_class e = ''ValueError''
                       then Inr None else Inl e))"

definition validation_error :: exn where
  "validation_error = Exn ''ValidationError'' ''validation error for Pm2Process''"

definition of_field :: "'a option option \<Rightarrow> exn + 'a option" where
  "of_field v = (case v of None \<Rightarrow> Inl validation_error | Some x \<Rightarrow> Inr x)"

text \<open>The constructor call \<open>Pm2Process(id=..., ..., watching=...)\<close> on the values read from
  the decoded JSON: pydantic validates every field.\<close>

definition Pm2Process_init ::
  "pylib \<Rightarrow> json \<Rightarrow> json \<Rightarrow> json \<Rightarrow> json \<Rightarrow> json \<Rightarrow> json \<Rightarrow> json \<Rightarrow> json \<Rightarrow> json \<Rightarrow> json
   \<Rightarrow> int option \<Rightarrow> json \<Rightarrow> json \<Rightarrow> exn + Pm2Process" where
  "Pm2Process_init L v_id v_name v_namespace v_version v_mode v_pid v_uptime v_restarts v_status
     v_cpu memory_bytes v_user v_watching =
     bind_e (of_field (int_field L v_id)) (\<lambda>f_id.
     bind_e (of_field (str_field L v_name)) (\<lambda>f_name.
     bind_e (of_field (str_field L v_namespace)) (\<lambda>f_namespace.
     bind_e (of_field (str_field L v_version)) (\<lambda>f_version.
     bind_e (of_field (str_field L v_mode)) (\<lambda>f_mode.
     bind_e (of_field (int_field L v_pid)) (\<lambda>f_pid.
     bind_e (of_field (int_field L v_uptime)) (\<lambda>f_uptime.
     bind_e (of_field (int_field L v_restarts)) (\<lambda>f_restarts.
     bind_e (of_field (str_field L v_status)) (\<lambda>f_status.
     bind_e (of_field (float_field L v_cpu)) (\<lambda>f_cpu.
     bind_e (of_field (str_field L v_user)) (\<lambda>f_user.
     bind_e (of_field (bool_field L v_watching)) (\<lambda>f_watching.
       Inr \<lparr>Pm2Process_id = f_id, Pm2Process_name = f_name,
            Pm2Process_namespace = f_namespace, Pm2Process_version = f_version,
            Pm2Process_mode = f_mode, Pm2Process_pid = f_pid, Pm2Process_uptime = f_uptime,
            Pm2Process_restarts = f_restarts, Pm2Process_status = f_status,
            Pm2Process_cpu = f_cpu, Pm2Process_memory_bytes = memory_bytes,
            Pm2Process_user = f_user, Pm2Process_watching = f_watching\<rparr>))))))))))))"

text \<open>One pass of the loop \<open>for proc in payload\<close> (lines 320 to 346): the process record and
  its parsed memory.\<close>

definition pm2_proc :: "pylib \<Rightarrow> json \<Rightarrow> exn + (Pm2Process \<times> int option)" where
  "pm2_proc L proc =
     (let pm2_env = (case proc of
                       JObj kvs \<Rightarrow> (case map_of kvs ''pm2_env'' of None \<Rightarrow> JObj [] | Some v \<Rightarrow> v)
                     | _ \<Rightarrow> JObj []);
          monit = (case proc of
                     JObj kvs \<Rightarrow> (case map_of kvs ''monit'' of None \<Rightarrow> JObj [] | Some v \<Rightarrow> v)
                   | _ \<Rightarrow> JObj [])
      in bind_e (obj_get monit ''memory'') (\<lambda>memory.
         bind_e (mem_bytes_of L memory) (\<lambda>mem_bytes.
         bind_e (obj_get proc ''pm_id'') (\<lambda>v_id.
         bind_e (obj_get proc ''name'') (\<lambda>v_name.
         bind_e (obj_get pm2_env ''namespace'') (\<lambda>v_namespace.
         bind_e (obj_get pm2_env ''version'') (\<lambda>v_version.
         bind_e (obj_get pm2_env ''exec_mode'') (\<lambda>v_mode.
         bind_e (obj_get proc ''pid'') (\<lambda>v_pid.
         bind_e (obj_get pm2_env ''pm_uptime'') (\<lambda>v_uptime.
         bind_e (obj_get pm2_env ''restart_time'') (\<lambda>v_restarts.
         bind_e (obj_get pm2_env ''status'') (\<lambda>v_status.
         bind_e (obj_get monit ''cpu'') (\<lambda>v_cpu.
         bind_e (obj_get pm2_env ''username'') (\<lambda>v_user.
         bind_e (obj_get pm2_env ''watching'') (\<lambda>v_watching.
         bind_e (Pm2Process_init L v_id v_name v_namespace v_version v_mode v_pid v_uptime
                   v_restarts v_status v_cpu mem_bytes v_user v_watching) (\<lambda>p.
           Inr (p, mem_bytes)))))))))))))))))"

fun pm2_loop ::
  "pylib \<Rightarrow> json list \<Rightarrow> Pm2Process list \<Rightarrow> int \<Rightarrow> exn + (Pm2Process list \<times> int)" where
  "pm2_loop L [] details total_bytes = Inr (details, total_bytes)"
| "pm2_loop L (proc # rest) details total_bytes =
     bind_e (pm2_proc L proc) (\<lambda>(p, mem_bytes).
       pm2_loop L rest (details @ [p])
         (case mem_bytes of None \<Rightarrow> total_bytes | Some m \<Rightarrow> total_bytes + m))"

definition pm2_error_info :: "string \<Rightarrow> Pm2Info" where
  "pm2_error_info message =
     \<lparr>Pm2Info_total_memory_bytes = None, Pm2Info_processes = None, Pm2Info_details = None,
      Pm2Info_error = Some message\<rparr>"

definition fetch_pm2_details ::
  "'w client \<Rightarrow> pylib \<Rightarrow> string option \<Rightarrow> string option \<Rightarrow> string option
   \<Rightarrow> (Pm2Info \<times> string option, 'w) action" where
  "fetch_pm2_details client L pm2_user pm2_home sudo_password =
     (let script = build_pm2_script L pm2_home
      in bind_w
           (case truthy_value pm2_user of
              Some u \<Rightarrow>
                (case truthy_value sudo_password of
                   Some pw \<Rightarrow> run_sudo_command client L script pw u True
                 | None \<Rightarrow>
                     run_command client L
                       (''sudo -n -u '' @ shlex_quote L u @ '' -H bash -lc '' @ shlex_quote L script)
                       True False)
            | None \<Rightarrow> run_command client L (''bash -lc '' @ shlex_quote L script) True False)
           (\<lambda>result.
              (let payload = (case extract_json_array L (stdout result) of
                                Some (x # xs) \<Rightarrow> Some (x # xs)
                              | _ \<Rightarrow> extract_json_array L (stderr result))
               in case payload of
                    None \<Rightarrow>
                      (let message0 = strip (if stderr result \<noteq> [] then stderr result
                                             else stdout result);
                           message1 = (if message0 = [] \<and> exit_code result \<noteq> 0
                                       then ''pm2 exit code '' @ str_int (exit_code result)
                                       else message0);
                           message = (if message1 = [] then ''pm2 returned no output''
                                      else message1)
                       in return_w (pm2_error_info message, Some message))
                  | Some procs \<Rightarrow>
                      lift_w (bind_e (pm2_loop L procs [] 0) (\<lambda>(details, total_bytes).
                        Inr (\<lparr>Pm2Info_total_memory_bytes = Some total_bytes,
                              Pm2Info_processes = Some (int (length details)),
                              Pm2Info_details = Some details,
                              Pm2Info_error = None\<rparr>, None))))))"

subsection \<open>The supervisor probe\<close>

definition BS :: string where
  "BS = [CHR 0x5C]"

definition SUPERVISOR_LINE :: string where
  "SUPERVISOR_LINE =
     ''^(?P<name>'' @ BS @ ''S+)'' @ BS @ ''s+''
     @ ''(?P<state>'' @ BS @ ''S+)''
     @ ''(?:'' @ BS @ ''s+pid'' @ BS @ ''s+(?P<pid>'' @ BS @ ''d+),'' @ BS @ ''s+uptime'' @ BS
       @ ''s+(?P<uptime>.+))?''
     @ ''(?:'' @ BS @ ''s+-'' @ BS @ ''s+(?P<message>.+))?$''"

fun supervisor_loop ::
  "pylib \<Rightarrow> string list \<Rightarrow> int \<Rightarrow> int \<Rightarrow> SupervisorProcess list \<Rightarrow> exn + SupervisorInfo" where
  "supervisor_loop L [] total_n running details =
     Inr \<lparr>SupervisorInfo_total = Some total_n, SupervisorInfo_running = Some running,
          SupervisorInfo_details = Some details\<rparr>"
| "supervisor_loop L (line # rest) total_n running details =
     (case re_match L SUPERVISOR_LINE line of
        Some info \<Rightarrow>
          (let state = info ''state'';
               running1 = (if state = Some ''RUNNING'' then running + 1 else running)
           in bind_e
                (case truthy_value (info ''pid'') of
                   Some p \<Rightarrow>
                     (if isdigit p
                      then (case int_of_str L p of
                              None \<Rightarrow> Inl (Exn ''ValueError'' ''invalid literal for int() with base 10'')
                            | Some n \<Rightarrow> Inr (Some n))
                      else Inr None)
                 | None \<Rightarrow> Inr None)
                (\<lambda>pid_n.
                   supervisor_loop L rest (total_n + 1) running1
                     (details @ [\<lparr>SupervisorProcess_name = info ''name'',
                                   SupervisorProcess_state = state,
                                   SupervisorProcess_pid = pid_n,
                                   SupervisorProcess_uptime = info ''uptime'',
                                   SupervisorProcess_message = info ''message'',
                                   SupervisorProcess_raw = Some line\<rparr>])))
      | None \<Rightarrow>
          supervisor_loop L rest (total_n + 1) running
            (details @ [\<lparr>SupervisorProcess_name = None, SupervisorProcess_state = None,
                          SupervisorProcess_pid = None, SupervisorProcess_uptime = None,
                          SupervisorProcess_message = None,
                          SupervisorProcess_raw = Some line\<rparr>]))"

definition parse_supervisor :: "pylib \<Rightarrow> string list \<Rightarrow> exn + SupervisorInfo" where
  "parse_supervisor L lines =
     (if lines = []
      then Inr \<lparr>SupervisorInfo_total = None, SupervisorInfo_running = None,
                SupervisorInfo_details = None\<rparr>
      else supervisor_loop L lines 0 0 [])"

definition supervisor_command :: string where
  "supervisor_command =
     ''command -v supervisorctl >/dev/null 2>&1 && supervisorctl status || true''"

text \<open>\<open>[line.strip() for line in out.splitlines() if line.strip()]\<close>\<close>

definition stripped_lines :: "string \<Rightarrow> string list" where
  "stripped_lines out = map strip (filter (\<lambda>line. strip line \<noteq> []) (splitlines out))"

text \<open>The text that \<open>fetch_supervisor\<close> searches for the signature of a permission error.\<close>

definition supervisor_joined :: "SshResult \<Rightarrow> string" where
  "supervisor_joined result =
     lower (join NL (stripped_lines (stdout result) @ [strip (stderr result)]))"

definition fetch_supervisor ::
  "'w client \<Rightarrow> pylib \<Rightarrow> string option \<Rightarrow> string \<Rightarrow> (SupervisorInfo, 'w) action" where
  "fetch_supervisor client L sudo_password ssh_user =
     bind_w (run_command client L supervisor_command False True) (\<lambda>result.
       (let lines = stripped_lines (stdout result);
            joined = supervisor_joined result
        in case (if (contains ''permission denied'' joined \<or> contains ''error:'' joined)
                    \<and> ssh_user \<noteq> ''root''
                 then truthy_value sudo_password else None) of
             Some pw \<Rightarrow>
               bind_w (run_sudo_command client L ''supervisorctl status || true'' pw ''root'' True)
                 (\<lambda>result2. lift_w (parse_supervisor L (stripped_lines (stdout result2))))
           | None \<Rightarrow> lift_w (parse_supervisor L lines)))"

subsection \<open>Snapshots\<close>

definition build_error_stats :: "Server \<Rightarrow> string \<Rightarrow> HostStats" where
  "build_error_stats server message =
     HostStats_init (Server_id server) (Server_name server) (Server_host server)
       (Server_user server) (Server_port server) (Server_tags server) (Some message)
       \<lparr>CpuInfo_cores = None, CpuInfo_usage_percent = None, CpuInfo_usage_human = ''n/a''\<rparr>
       \<lparr>MemoryInfo_total_bytes = None, MemoryInfo_used_bytes = None,
        MemoryInfo_total_human = ''n/a'', MemoryInfo_used_human = ''n/a''\<rparr>
       \<lparr>UptimeInfo_seconds = None, UptimeInfo_human = ''n/a''\<rparr>
       \<lparr>DiskInfo_mount = ''/'', DiskInfo_total_bytes = None, DiskInfo_used_bytes = None,
        DiskInfo_total_human = ''n/a'', DiskInfo_used_human = ''n/a''\<rparr>
       (pm2_error_info message)
       \<lparr>SupervisorInfo_total = None, SupervisorInfo_running = None,
        SupervisorInfo_details = None\<rparr>"

text \<open>Lines 452 to 464 of \<open>collect_stats\<close>: the pm2 probe and its fallback as root.
  \<open>login_password\<close> is \<open>server.password if server.user != "root" else None\<close>, and
  \<open>fallback_home\<close> is \<open>server.pm2_home or "/root/.pm2"\<close>.\<close>

definition fallback_home :: "Server \<Rightarrow> string option" where
  "fallback_home server =
     (case truthy_value (Server_pm2_home server) of
        Some h \<Rightarrow> Some h | None \<Rightarrow> Some ''/root/.pm2'')"

definition login_password :: "Server \<Rightarrow> string option" where
  "login_password server =
     (if Server_user server \<noteq> ''root'' then Server_password server else None)"

definition pm2_probe :: "'w client \<Rightarrow> pylib \<Rightarrow> Server \<Rightarrow> (Pm2Info, 'w) action" where
  "pm2_probe client L server =
     bind_w (fetch_pm2_details client L (Server_pm2_user server) (Server_pm2_home server)
               (login_password server))
       (\<lambda>(pm2_info, message).
          if truthy (Pm2Info_error pm2_info) \<and> truthy (Server_password server)
             \<and> Server_user server \<noteq> ''root''
          then bind_w (fetch_pm2_details client L (Some ''root'') (fallback_home server)
                         (Server_password server))
                 (\<lambda>(pm2_info2, message2). return_w pm2_info2)
          else return_w pm2_info)"

text \<open>Lines 465 to 469 of \<open>collect_stats\<close>.\<close>

definition supervisor_probe :: "'w client \<Rightarrow> pylib \<Rightarrow> Server \<Rightarrow> (SupervisorInfo, 'w) action" where
  "supervisor_probe client L server =
     fetch_supervisor client L (login_password server) (Server_user server)"

definition collect_stats :: "'w client \<Rightarrow> pylib \<Rightarrow> Server \<Rightarrow> (HostStats, 'w) action" where
  "collect_stats client L server =
     bind_w (fetch_cpu client L) (\<lambda>(cpu_cores, cpu_usage).
     bind_w (fetch_memory client L) (\<lambda>(mem_total, mem_used).
     bind_w (fetch_uptime client L) (\<lambda>uptime_seconds.
     bind_w (fetch_disk client L) (\<lambda>(disk_total, disk_used).
     bind_w (pm2_probe client L server) (\<lambda>pm2_info.
     bind_w (supervisor_probe client L server) (\<lambda>supervisor_info.
     lift_w
       (bind_e (format_bytes L mem_total) (\<lambda>mem_total_human.
        bind_e (format_bytes L mem_used) (\<lambda>mem_used_human.
        bind_e (format_seconds uptime_seconds) (\<lambda>uptime_human.
        bind_e (format_bytes L disk_total) (\<lambda>disk_total_human.
        bind_e (format_bytes L disk_used) (\<lambda>disk_used_human.
          Inr (HostStats_init (Server_id server) (Server_name server) (Server_host server)
                 (Server_user server) (Server_port server) (Server_tags server) None
                 \<lparr>CpuInfo_cores = cpu_cores, CpuInfo_usage_percent = cpu_usage,
                  CpuInfo_usage_human =
                    (case cpu_usage of None \<Rightarrow> ''n/a'' | Some u \<Rightarrow> format_2f L u @ ''%'')\<rparr>
                 \<lparr>MemoryInfo_total_bytes = mem_total, MemoryInfo_used_bytes = mem_used,
                  MemoryInfo_total_human = mem_total_human,
                  MemoryInfo_used_human = mem_used_human\<rparr>
                 \<lparr>UptimeInfo_seconds = uptime_seconds, UptimeInfo_human = uptime_human\<rparr>
                 \<lparr>DiskInfo_mount = ''/'', DiskInfo_total_bytes = disk_total,
                  DiskInfo_used_bytes = disk_used, DiskInfo_total_human = disk_total_human,
                  DiskInfo_used_human = disk_used_human\<rparr>
                 pm2_info supervisor_info)))))))))))))"

section \<open>The session pool: app/infra/ssh_pool.py\<close>

text \<open>
  A client is a handle (a number). What paramiko does is a parameter: \<open>connect_host\<close> is
  \<open>SSHClient().connect(...)\<close> with the arguments \<open>_connect\<close> takes from the server, giving a
  new client or raising; \<open>transport_active\<close> is \<open>_is_active\<close>; \<open>close_client\<close> is
  \<open>client.close()\<close>, which returns or raises; \<open>client_exec\<close> answers the commands sent
  through a client.
\<close>

record 'w paramiko =
  connect_host :: "'w \<Rightarrow> Server \<Rightarrow> (exn + nat) \<times> 'w"
  transport_active :: "'w \<Rightarrow> nat \<Rightarrow> bool"
  close_client :: "'w \<Rightarrow> nat \<Rightarrow> exn option \<times> 'w"
  client_exec :: "nat \<Rightarrow> 'w client"

text \<open>The class \<open>_Entry\<close>; its lock serialises the calls, which the model runs one after
  another.\<close>

record Entry =
  Entry_client :: "nat option"
  Entry_last_error :: "string option"

definition new_entry :: Entry where
  "new_entry = \<lparr>Entry_client = None, Entry_last_error = None\<rparr>"

record SSHClientPool =
  pool_entries :: "string \<Rightarrow> Entry option"
  pool_servers :: "string \<Rightarrow> Server option"
  pool_monitor_started :: bool

definition get_entry :: "SSHClientPool \<Rightarrow> string \<Rightarrow> Entry \<times> SSHClientPool" where
  "get_entry pool server_id =
     (case pool_entries pool server_id of
        None \<Rightarrow> (new_entry, pool\<lparr>pool_entries := (pool_entries pool)(server_id \<mapsto> new_entry)\<rparr>)
      | Some entry \<Rightarrow> (entry, pool))"

text \<open>An entry is an object shared with the dict: a change made to it is a change of the
  dict's value.\<close>

definition put_entry :: "SSHClientPool \<Rightarrow> string \<Rightarrow> Entry \<Rightarrow> SSHClientPool" where
  "put_entry pool server_id entry = pool\<lparr>pool_entries := (pool_entries pool)(server_id \<mapsto> entry)\<rparr>"

definition pool_connect :: "'w paramiko \<Rightarrow> Server \<Rightarrow> (nat, 'w) action" where
  "pool_connect P server w =
     (let (r, rw) = connect_host P (remote w) server
      in (r, \<lparr>remote = rw, trace = trace w @ [Connect (Server_id server)]\<rparr>))"

text \<open>\<open>entry.client.close()\<close>: the exception it raises, if any.\<close>

definition pool_close :: "'w paramiko \<Rightarrow> nat \<Rightarrow> 'w world \<Rightarrow> exn option \<times> 'w world" where
  "pool_close P c w =
     (let (r, rw) = close_client P (remote w) c
      in (r, \<lparr>remote = rw, trace = trace w @ [Close c]\<rparr>))"

definition is_active :: "'w paramiko \<Rightarrow> 'w world \<Rightarrow> nat \<Rightarrow> bool" where
  "is_active P w c = transport_active P (remote w) c"

definition reconnect ::
  "'w paramiko \<Rightarrow> Server \<Rightarrow> Entry \<Rightarrow> 'w world \<Rightarrow> (exn + nat) \<times> Entry \<times> 'w world" where
  "reconnect P server entry w =
     (case pool_connect P server w of
        (Inl e, w1) \<Rightarrow> (Inl e, entry, w1)
      | (Inr c, w1) \<Rightarrow> (Inr c, entry\<lparr>Entry_client := Some c, Entry_last_error := None\<rparr>, w1))"

definition ensure_connected_locked ::
  "'w paramiko \<Rightarrow> Server \<Rightarrow> Entry \<Rightarrow> 'w world \<Rightarrow> (exn + nat) \<times> Entry \<times> 'w world" where
  "ensure_connected_locked P server entry w =
     (case Entry_client entry of
        Some c \<Rightarrow>
          if is_active P w c then (Inr c, entry, w)
          else (case pool_close P c w of
                  (Some e, w1) \<Rightarrow> (Inl e, entry, w1)
                | (None, w1) \<Rightarrow> reconnect P server (entry\<lparr>Entry_client := None\<rparr>) w1)
      | None \<Rightarrow> reconnect P server entry w)"

text \<open>
  The call \<open>collect_stats(client, server, detail=detail)\<close> of \<open>SSHClientPool.collect\<close>.
  \<open>collect_stats\<close> is declared with the parameters \<open>client\<close> and \<open>server\<close> (ssh.py, line
  447); Python binds the arguments before it runs the body, and a keyword that names no
  parameter raises TypeError.
\<close>

definition collect_stats_params :: "string list" where
  "collect_stats_params = [''client'', ''server'']"

definition call_collect_stats ::
  "'w client \<Rightarrow> pylib \<Rightarrow> Server \<Rightarrow> string list \<Rightarrow> (HostStats, 'w) action" where
  "call_collect_stats client L server keywords w =
     (case find (\<lambda>k. k \<notin> set collect_stats_params) keywords of
        Some k \<Rightarrow>
          (Inl (Exn ''TypeError''
                 (''collect_stats() got an unexpected keyword argument ''
                  @ [CHR 0x27] @ k @ [CHR 0x27])), w)
      | None \<Rightarrow> collect_stats client L server w)"

text \<open>\<open>SSHClientPool.collect\<close> is \<open>pool_collect\<close>; \<open>collect_try\<close> is the body of its \<open>try\<close>,
  and the entry that the body leaves behind is part of its result, for
  \<open>_ensure_connected_locked\<close> changes the entry before \<open>_connect\<close> can raise. The handler
  of \<open>except Exception\<close> calls \<open>entry.client.close()\<close> itself: an exception of that call
  leaves \<open>collect\<close>, with \<open>last_error\<close> set and the client still in the entry.\<close>

definition collect_try ::
  "'w paramiko \<Rightarrow> pylib \<Rightarrow> Server \<Rightarrow> string \<Rightarrow> Entry \<Rightarrow> 'w world
   \<Rightarrow> (exn + HostStats) \<times> Entry \<times> 'w world" where
  "collect_try P L server detail entry w =
     (case ensure_connected_locked P server entry w of
        (Inl e, entry1, w1) \<Rightarrow> (Inl e, entry1, w1)
      | (Inr c, entry1, w1) \<Rightarrow>
          (case call_collect_stats (client_exec P c) L server [''detail''] w1 of
             (r, w2) \<Rightarrow> (r, entry1, w2)))"

definition pool_collect ::
  "'w paramiko \<Rightarrow> pylib \<Rightarrow> Server \<Rightarrow> string \<Rightarrow> SSHClientPool \<Rightarrow> 'w world
   \<Rightarrow> (exn + HostStats) \<times> SSHClientPool \<times> 'w world" where
  "pool_collect P L server detail pool w =
     (let (entry, pool1) = get_entry pool (Server_id server)
      in case collect_try P L server detail entry w of
           (Inr stats, entry1, w1) \<Rightarrow> (Inr stats, put_entry pool1 (Server_id server) entry1, w1)
         | (Inl exc, entry1, w1) \<Rightarrow>
             (let entry2 = entry1\<lparr>Entry_last_error := Some (exn_msg exc)\<rparr>
              in case Entry_client entry2 of
                   Some c \<Rightarrow>
                     (case pool_close P c w1 of
                        (Some e, w2) \<Rightarrow> (Inl e, put_entry pool1 (Server_id server) entry2, w2)
                      | (None, w2) \<Rightarrow>
                          (Inr (build_error_stats server (exn_msg exc)),
                           put_entry pool1 (Server_id server) (entry2\<lparr>Entry_client := None\<rparr>),
                           w2))
                 | None \<Rightarrow>
                     (Inr (build_error_stats server (exn_msg exc)),
                      put_entry pool1 (Server_id server) entry2, w1)))"

section \<open>The realtime hub: app/realtime/hub.py\<close>

definition MIN_INTERVAL_S :: pyfloat where
  "MIN_INTERVAL_S = Finite 3"

definition MAX_INTERVAL_S :: pyfloat where
  "MAX_INTERVAL_S = Finite 60"

definition DEFAULT_INTERVAL_S :: pyfloat where
  "DEFAULT_INTERVAL_S = Finite 10"

text \<open>\<open>_normalize_interval\<close>, on the value \<open>payload.get("interval_ms")\<close> of a decoded message.
  \<open>isinstance(interval_ms, (int, float))\<close> holds for a \<open>bool\<close> too, and \<open>interval_ms / 1000.0\<close>
  converts an int to a float first.\<close>

definition normalize_interval :: "json \<Rightarrow> exn + pyfloat" where
  "normalize_interval interval_ms =
     (case interval_ms of
        JBool b \<Rightarrow>
          bind_e (float_of_int (if b then 1 else 0)) (\<lambda>x.
            Inr (py_max MIN_INTERVAL_S (py_min MAX_INTERVAL_S (float_div x 1000))))
      | JInt n \<Rightarrow>
          bind_e (float_of_int n) (\<lambda>x.
            Inr (py_max MIN_INTERVAL_S (py_min MAX_INTERVAL_S (float_div x 1000))))
      | JFloat x \<Rightarrow> Inr (py_max MIN_INTERVAL_S (py_min MAX_INTERVAL_S (float_div x 1000)))
      | _ \<Rightarrow> Inr DEFAULT_INTERVAL_S)"

definition normalize_detail :: "json \<Rightarrow> string" where
  "normalize_detail detail =
     (case detail of
        JStr s \<Rightarrow> if lower s = ''full'' then ''full'' else ''summary''
      | _ \<Rightarrow> ''summary'')"

record Subscription =
  Subscription_interval_s :: pyfloat
  Subscription_detail :: string

record 'p CacheEntry =
  CacheEntry_payload :: 'p
  CacheEntry_fetched_at :: rat
  CacheEntry_detail :: string

definition float_le :: "pyfloat \<Rightarrow> pyfloat \<Rightarrow> bool" where
  "float_le a b =
     (case (a, b) of
        (NaN, _) \<Rightarrow> False
      | (_, NaN) \<Rightarrow> False
      | (Finite x, Finite y) \<Rightarrow> x \<le> y
      | (_, PosInf) \<Rightarrow> True
      | (NegInf, _) \<Rightarrow> True
      | (_, _) \<Rightarrow> False)"

text \<open>The three values \<open>_tick\<close> computes for one server id of its snapshot (lines 146 to
  149): the minimum of the subscribers' intervals, the active detail level, and whether the
  server is due. \<open>now\<close> and \<open>fetched_at\<close> are readings of the monotonic clock.\<close>

definition active_interval :: "Subscription list \<Rightarrow> pyfloat" where
  "active_interval subs =
     (case subs of
        [] \<Rightarrow> DEFAULT_INTERVAL_S
      | s # rest \<Rightarrow> foldl py_min (Subscription_interval_s s) (map Subscription_interval_s rest))"

definition active_detail :: "Subscription list \<Rightarrow> string" where
  "active_detail subs =
     (if list_ex (\<lambda>sub. Subscription_detail sub = ''full'') subs then ''full'' else ''summary'')"

definition due :: "rat \<Rightarrow> Subscription list \<Rightarrow> 'p CacheEntry option \<Rightarrow> bool" where
  "due now subs cache =
     (case cache of
        None \<Rightarrow> True
      | Some c \<Rightarrow>
          float_le (active_interval subs) (Finite (now - CacheEntry_fetched_at c))
          \<or> CacheEntry_detail c \<noteq> active_detail subs)"

text \<open>The hub's state that \<open>_tick\<close> reads and writes, and one tick: the server ids it marks
  in flight and dispatches a fetch for, each with its detail level.\<close>

record ('s, 'p) hub =
  hub_server_subs :: "(string \<times> ('s \<times> Subscription) list) list"
  hub_cache :: "string \<Rightarrow> 'p CacheEntry option"
  hub_in_flight :: "string set"

fun tick_loop ::
  "rat \<Rightarrow> (string \<times> Subscription list) list \<Rightarrow> ('s, 'p) hub
   \<Rightarrow> (string \<times> string) list \<times> ('s, 'p) hub" where
  "tick_loop now [] h = ([], h)"
| "tick_loop now ((server_id, subs) # rest) h =
     (if \<not> due now subs (hub_cache h server_id) then tick_loop now rest h
      else if server_id \<in> hub_in_flight h then tick_loop now rest h
      else (let (dispatched, h1) =
                  tick_loop now rest (h\<lparr>hub_in_flight := insert server_id (hub_in_flight h)\<rparr>)
            in ((server_id, active_detail subs) # dispatched, h1)))"

definition tick :: "rat \<Rightarrow> ('s, 'p) hub \<Rightarrow> (string \<times> string) list \<times> ('s, 'p) hub" where
  "tick now h =
     tick_loop now
       (map (\<lambda>(server_id, subs). (server_id, map snd subs))
          (filter (\<lambda>(server_id, subs). subs \<noteq> []) (hub_server_subs h)))
       h"

section \<open>The registry: app/servers/repository.py\<close>

text \<open>
  The file of the registry holds what \<open>_save\<close> wrote last, or nothing (no file, or a blank
  one): \<open>_load\<close> rebuilds the servers that \<open>_save\<close> dumped. \<open>repo_load\<close>, \<open>repo_save\<close> and
  \<open>repo_add\<close> are the methods \<open>_load\<close>, \<open>_save\<close> and \<open>add\<close> of \<open>ServerRepository\<close>; the loop
  of \<open>add\<close> over the existing servers is \<open>find_existing\<close>.
\<close>

type_synonym servers_file = "Server list option"

definition repo_load :: "servers_file \<Rightarrow> Server list" where
  "repo_load file = (case file of None \<Rightarrow> [] | Some servers \<Rightarrow> servers)"

definition repo_save :: "Server list \<Rightarrow> servers_file" where
  "repo_save servers = Some servers"

fun find_existing :: "Server \<Rightarrow> Server list \<Rightarrow> exn option" where
  "find_existing server [] = None"
| "find_existing server (existing # rest) =
     (if Server_host existing = Server_host server \<and> Server_port existing = Server_port server
         \<and> Server_user existing = Server_user server
      then Some (Exn ''ValueError'' ''Server already exists for host/port/user'')
      else find_existing server rest)"

definition repo_add :: "Server \<Rightarrow> servers_file \<Rightarrow> (exn + Server) \<times> servers_file" where
  "repo_add server file =
     (let servers = repo_load file
      in case find_existing server servers of
           Some e \<Rightarrow> (Inl e, file)
         | None \<Rightarrow> (Inr server, repo_save (servers @ [server])))"

section \<open>The specification's wording, for comparison with the code\<close>

text \<open>
  The specification on \<open>format_seconds\<close>: "the human-readable duration formatter prefers the
  largest applicable unit pair (\<open>d h\<close>, \<open>h m\<close>, \<open>m s\<close>, \<open>s\<close>)", here for a whole number of
  seconds.
\<close>

definition spec_unit_pair :: "int \<Rightarrow> string" where
  "spec_unit_pair n =
     (if 86400 \<le> n then str_int (n div 86400) @ ''d '' @ str_int (n mod 86400 div 3600) @ ''h''
      else if 3600 \<le> n then str_int (n div 3600) @ ''h '' @ str_int (n mod 3600 div 60) @ ''m''
      else if 60 \<le> n then str_int (n div 60) @ ''m '' @ str_int (n mod 60) @ ''s''
      else str_int n @ ''s'')"

text \<open>
  The specification on \<open>_normalize_interval\<close>: "input milliseconds, converted to seconds,
  clamped to [3, 60]; non-numeric input defaults to 10s". The numbers of a JSON message are
  its ints and floats.
\<close>

definition spec_normalize_interval :: "json \<Rightarrow> pyfloat" where
  "spec_normalize_interval v =
     (case v of
        JInt n \<Rightarrow> Finite (max 3 (min 60 (of_int n / 1000)))
      | JFloat x \<Rightarrow> py_max (Finite 3) (py_min (Finite 60) (float_div x 1000))
      | _ \<Rightarrow> Finite 10)"

text \<open>
  The specification on the scheduler: "a server becomes due exactly when
  \<open>now - lastFetch \<ge> min(subscriber intervals)\<close> or when the requested detail level is
  \<open>full\<close> while the cache holds \<open>summary\<close>", and when there is no cache entry yet.
\<close>

definition spec_due :: "rat \<Rightarrow> Subscription list \<Rightarrow> 'p CacheEntry option \<Rightarrow> bool" where
  "spec_due now subs cache =
     (case cache of
        None \<Rightarrow> True
      | Some c \<Rightarrow>
          float_le (active_interval subs) (Finite (now - CacheEntry_fetched_at c))
          \<or> (active_detail subs = ''full'' \<and> CacheEntry_detail c = ''summary''))"

section \<open>Concrete inputs\<close>

text \<open>A server that logs in as \<open>deploy\<close> with a password, used where a theorem is
  instantiated.\<close>

definition sample_server :: Server where
  "sample_server =
     \<lparr>Server_id = ''srv-1'', Server_name = Some ''web'', Server_host = ''10.0.0.5'',
      Server_port = 22, Server_user = ''deploy'', Server_password = Some ''s3cret'',
      Server_key_path = None, Server_pm2_user = None, Server_pm2_home = None,
      Server_tags = [''prod''], Server_enabled = True\<rparr>"

text \<open>A library that decodes only the text \<open>[1]\<close>, parses no number, matches no line,
  quotes nothing and accepts every field as absent.\<close>

definition sample_lib :: pylib where
  "sample_lib =
     \<lparr>json_raw_decode = (\<lambda>s. if s = ''[1]'' then Some (JArr [JInt 1]) else None),
      int_of_str = (\<lambda>s. None),
      float_of_str = (\<lambda>s. None),
      format_2f = (\<lambda>x. ''0.00''),
      re_match = (\<lambda>pattern line. None),
      shlex_quote = (\<lambda>s. s),
      int_field = (\<lambda>v. Some None),
      str_field = (\<lambda>v. Some None),
      float_field = (\<lambda>v. Some None),
      bool_field = (\<lambda>v. Some None)\<rparr>"

text \<open>A host that refuses every command of the login user with \<open>Permission denied\<close> and
  answers a command that comes with a password on stdin.\<close>

definition denying_client :: "unit client" where
  "denying_client u req =
     (if request_stdin req = [] then (Completed [] ''Permission denied'' 1, u)
      else (Completed ''web RUNNING'' [] 0, u))"

text \<open>A host on which \<open>supervisorctl\<close> cannot reach its socket as the login user and
  answers a command that comes with a password on stdin.\<close>

definition unreachable_client :: "unit client" where
  "unreachable_client u req =
     (if request_stdin req = [] then (Completed ''error: connection refused'' [] 0, u)
      else (Completed ''web RUNNING'' [] 0, u))"

text \<open>A host on which every command prints the JSON array \<open>[1]\<close> and exits with 0.\<close>

definition echo_one_client :: "unit client" where
  "echo_one_client u req = (Completed ''[1]'' [] 0, u)"

text \<open>The AttributeError of \<open>proc.get\<close> on an int, and the TypeError of the keyword
  \<open>detail\<close> in a call of \<open>collect_stats\<close>.\<close>

definition int_has_no_get :: exn where
  "int_has_no_get = Exn ''AttributeError''
     ([CHR 0x27] @ ''int'' @ [CHR 0x27] @ '' object has no attribute '' @ [CHR 0x27] @ ''get''
      @ [CHR 0x27])"

definition detail_error :: exn where
  "detail_error = Exn ''TypeError''
     (''collect_stats() got an unexpected keyword argument '' @ [CHR 0x27] @ ''detail''
      @ [CHR 0x27])"

text \<open>Two networks. In the first every connection succeeds, the n-th client being the
  handle n, every transport stays active and every close returns. In the second no
  transport is active and every close raises.\<close>

definition always_up :: "nat paramiko" where
  "always_up =
     \<lparr>connect_host = (\<lambda>n server. (Inr n, Suc n)),
      transport_active = (\<lambda>n c. True),
      close_client = (\<lambda>n c. (None, n)),
      client_exec = (\<lambda>c n req. (Completed [] [] 0, n))\<rparr>"

definition close_error :: exn where
  "close_error = Exn ''OSError'' ''[Errno 9] Bad file descriptor''"

definition close_fails :: "nat paramiko" where
  "close_fails =
     \<lparr>connect_host = (\<lambda>n server. (Inr n, Suc n)),
      transport_active = (\<lambda>n c. False),
      close_client = (\<lambda>n c. (Some close_error, n)),
      client_exec = (\<lambda>c n req. (Completed [] [] 0, n))\<rparr>"

definition empty_pool :: SSHClientPool where
  "empty_pool =
     \<lparr>pool_entries = Map.empty, pool_servers = Map.empty, pool_monitor_started = False\<rparr>"

text \<open>A pool that holds the client 7 for the server \<open>srv-1\<close>.\<close>

definition stale_pool :: SSHClientPool where
  "stale_pool =
     \<lparr>pool_entries = [''srv-1'' \<mapsto> \<lparr>Entry_client = Some 7, Entry_last_error = None\<rparr>],
      pool_servers = Map.empty, pool_monitor_started = False\<rparr>"

section \<open>Properties of the formatting functions\<close>

lemma format_seconds_int:
  "format_seconds (Some x) =
     bind_e (int_of_float x) (\<lambda>n.
       Inr (if n < 0 \<or> 86400 \<le> n
            then str_int (n div 86400) @ ''d '' @ str_int (n mod 86400 div 3600) @ ''h ''
                 @ str_int (n mod 3600 div 60) @ ''m''
            else if 3600 \<le> n
            then str_int (n div 3600) @ ''h '' @ str_int (n mod 3600 div 60) @ ''m''
            else if 60 \<le> n then str_int (n div 60) @ ''m '' @ str_int (n mod 60) @ ''s''
            else str_int n @ ''s''))"
proof (cases "int_of_float x")
  case (Inl e)
  then show ?thesis by (simp add: format_seconds_def bind_e_def)
next
  case (Inr n)
  have m1: "n mod 86400 mod 3600 = n mod 3600"
    by (rule mod_mod_cancel) simp
  have d0: "n div 86400 \<noteq> 0 \<longleftrightarrow> n < 0 \<or> 86400 \<le> n"
    by (auto simp: div_eq_0_iff)
  show ?thesis
  proof (cases "n < 0 \<or> 86400 \<le> n")
    case True
    then show ?thesis using Inr d0 m1
      by (simp add: format_seconds_def bind_e_def Let_def)
  next
    case False
    then have r: "0 \<le> n" "n < 86400" by auto
    then have r1: "n mod 86400 = n" "n div 86400 = 0" by simp_all
    have h0: "n div 3600 \<noteq> 0 \<longleftrightarrow> 3600 \<le> n" using r by (auto simp: div_eq_0_iff)
    show ?thesis
    proof (cases "3600 \<le> n")
      case True
      then show ?thesis using Inr False r1 h0
        by (simp add: format_seconds_def bind_e_def Let_def)
    next
      case h: False
      then have r2: "n mod 3600 = n" "n div 3600 = 0" using r by simp_all
      have mi: "n div 60 \<noteq> 0 \<longleftrightarrow> 60 \<le> n" using r by (auto simp: div_eq_0_iff)
      show ?thesis
      proof (cases "60 \<le> n")
        case True
        then show ?thesis using Inr False r1 r2 h mi
          by (simp add: format_seconds_def bind_e_def Let_def)
      next
        case m: False
        then have "n mod 60 = n" "n div 60 = 0" using r by simp_all
        then show ?thesis using Inr False r1 r2 h m
          by (simp add: format_seconds_def bind_e_def Let_def)
      qed
    qed
  qed
qed

text \<open>
  C9, as the code has it. \<open>format_seconds\<close> of no duration is \<open>n/a\<close>. Of a duration whose
  truncation to an integer is \<open>n\<close> seconds, it is: three units, days, hours and minutes,
  when \<open>n\<close> is at least one day (the same branch is taken when \<open>n\<close> is negative, where the
  floor division gives a negative number of days); hours and minutes when \<open>n\<close> is at least
  one hour; minutes and seconds when \<open>n\<close> is at least one minute; seconds alone
  otherwise.
\<close>

theorem format_seconds_units:
  "format_seconds None = Inr ''n/a''
   \<and> (int_of_float x = Inr n \<longrightarrow>
        format_seconds (Some x) =
          Inr (if n < 0 \<or> 86400 \<le> n
               then str_int (n div 86400) @ ''d '' @ str_int (n mod 86400 div 3600) @ ''h ''
                    @ str_int (n mod 3600 div 60) @ ''m''
               else if 3600 \<le> n
               then str_int (n div 3600) @ ''h '' @ str_int (n mod 3600 div 60) @ ''m''
               else if 60 \<le> n then str_int (n div 60) @ ''m '' @ str_int (n mod 60) @ ''s''
               else str_int n @ ''s''))"
  by (simp add: format_seconds_int bind_e_def) (simp add: format_seconds_def)

text \<open>C9, witness: one hour, one minute and two seconds.\<close>

theorem format_seconds_units_witness:
  "format_seconds None = Inr ''n/a''
   \<and> int_of_float (Finite 3662) = Inr 3662
   \<and> format_seconds (Some (Finite 3662)) = Inr ''1h 1m''"
  using format_seconds_units [of "Finite 3662" 3662]
  by (simp add: int_of_float_def str_int_def str_nat.simps digit_char_def)

text \<open>
  C9 as stated fails from one day on: for one day, one hour, one minute and one second the
  code prints three units, where the unit pair of the claim is \<open>1d 1h\<close>.
\<close>

theorem format_seconds_day_counterexample:
  "format_seconds (Some (Finite 90061)) = Inr ''1d 1h 1m''
   \<and> spec_unit_pair 90061 = ''1d 1h''"
  by (simp add: format_seconds_def bind_e_def int_of_float_def spec_unit_pair_def str_int_def
      str_nat.simps digit_char_def)


section \<open>Properties of the hub\<close>

lemma clamp_finite:
  "py_max MIN_INTERVAL_S (py_min MAX_INTERVAL_S (Finite q)) = Finite (max 3 (min 60 q))"
  by (simp add: py_max_def py_min_def float_lt_def MIN_INTERVAL_S_def MAX_INTERVAL_S_def
      max_def min_def)

text \<open>
  C8, as the code has it. An int within the range of a double and a finite float are taken
  as milliseconds, divided by 1000 and clamped to \<open>[3, 60]\<close>; of the floats that are no
  numbers, \<open>Infinity\<close> and \<open>NaN\<close> give 60 and \<open>-Infinity\<close> gives 3; a boolean passes the
  \<open>isinstance\<close> test as the int 1 or 0 and gives 3, not the default; null, a string, a list
  and a dict give the default of 10.
\<close>

theorem normalize_interval_cases:
  "(\<bar>n\<bar> < DBL_OVERFLOW \<longrightarrow>
      normalize_interval (JInt n) = Inr (Finite (max 3 (min 60 (of_int n / 1000)))))
   \<and> normalize_interval (JFloat (Finite q)) = Inr (Finite (max 3 (min 60 (q / 1000))))
   \<and> normalize_interval (JFloat PosInf) = Inr (Finite 60)
   \<and> normalize_interval (JFloat NaN) = Inr (Finite 60)
   \<and> normalize_interval (JFloat NegInf) = Inr (Finite 3)
   \<and> normalize_interval (JBool b) = Inr (Finite 3)
   \<and> normalize_interval JNull = Inr (Finite 10)
   \<and> normalize_interval (JStr s) = Inr (Finite 10)
   \<and> normalize_interval (JArr xs) = Inr (Finite 10)
   \<and> normalize_interval (JObj kvs) = Inr (Finite 10)"
proof -
  have i: "normalize_interval (JInt n) = Inr (Finite (max 3 (min 60 (of_int n / 1000))))"
    if "\<bar>n\<bar> < DBL_OVERFLOW"
    using that
    by (simp add: normalize_interval_def float_of_int_def bind_e_def float_div_def clamp_finite)
  have f: "normalize_interval (JFloat (Finite q)) = Inr (Finite (max 3 (min 60 (q / 1000))))"
    by (simp add: normalize_interval_def float_div_def clamp_finite)
  have s: "normalize_interval (JFloat PosInf) = Inr (Finite 60)"
    "normalize_interval (JFloat NaN) = Inr (Finite 60)"
    "normalize_interval (JFloat NegInf) = Inr (Finite 3)"
    by (simp_all add: normalize_interval_def float_div_def py_max_def py_min_def float_lt_def
        MIN_INTERVAL_S_def MAX_INTERVAL_S_def)
  have one: "(1::int) < DBL_OVERFLOW" "(0::int) < DBL_OVERFLOW"
    by (simp_all add: DBL_OVERFLOW_def)
  have b: "normalize_interval (JBool b) = Inr (Finite 3)"
    using one
    by (cases b)
      (simp_all add: normalize_interval_def float_of_int_def bind_e_def float_div_def clamp_finite)
  have d: "normalize_interval JNull = Inr (Finite 10)"
    "normalize_interval (JStr s) = Inr (Finite 10)"
    "normalize_interval (JArr xs) = Inr (Finite 10)"
    "normalize_interval (JObj kvs) = Inr (Finite 10)"
    by (simp_all add: normalize_interval_def DEFAULT_INTERVAL_S_def)
  from i f s b d show ?thesis by simp
qed

text \<open>C8, witness: 45000 ms are 45 s, 1000 ms are raised to 3 s and 90000 ms are cut to
  60 s.\<close>

theorem normalize_interval_cases_witness:
  "normalize_interval (JInt 45000) = Inr (Finite 45)
   \<and> normalize_interval (JInt 1000) = Inr (Finite 3)
   \<and> normalize_interval (JInt 90000) = Inr (Finite 60)"
proof -
  have r: "\<bar>45000 :: int\<bar> < DBL_OVERFLOW" "\<bar>1000 :: int\<bar> < DBL_OVERFLOW"
    "\<bar>90000 :: int\<bar> < DBL_OVERFLOW"
    by (simp_all add: DBL_OVERFLOW_def)
  show ?thesis
    using normalize_interval_cases [of 45000] normalize_interval_cases [of 1000]
      normalize_interval_cases [of 90000] r
    by simp
qed

text \<open>
  C8 as stated fails on a boolean: \<open>true\<close> is no number of the message, and the code answers
  3 seconds where the claim has the default of 10.
\<close>

theorem normalize_interval_counterexample:
  "normalize_interval (JBool True) = Inr (Finite 3)
   \<and> spec_normalize_interval (JBool True) = Finite 10"
proof -
  have "(1::int) < DBL_OVERFLOW" by (simp add: DBL_OVERFLOW_def)
  then show ?thesis
    by (simp add: normalize_interval_def float_of_int_def bind_e_def float_div_def clamp_finite
        spec_normalize_interval_def)
qed

lemma foldl_py_min_finite:
  "foldl py_min (Finite q) (map Finite qs) = Finite (Min (set (q # qs)))"
proof (induction qs arbitrary: q)
  case Nil
  show ?case by simp
next
  case (Cons a qs)
  have "py_min (Finite q) (Finite a) = Finite (min q a)"
    by (simp add: py_min_def float_lt_def min_def)
  then have "foldl py_min (Finite q) (map Finite (a # qs)) = Finite (Min (set (min q a # qs)))"
    using Cons.IH by simp
  also have "Min (set (min q a # qs)) = Min (set (q # a # qs))"
    by (cases "qs = []") (simp_all add: min.assoc)
  finally show ?case .
qed

lemma active_interval_finite:
  assumes "subs \<noteq> []" and "map Subscription_interval_s subs = map Finite qs"
  shows "active_interval subs = Finite (Min (set qs))"
proof -
  obtain s rest where subs: "subs = s # rest" using assms(1) by (cases subs) auto
  then obtain q qs' where qs: "qs = q # qs'" using assms(2) by (cases qs) auto
  with subs assms(2) have "Subscription_interval_s s = Finite q"
    and "map Subscription_interval_s rest = map Finite qs'" by auto
  then show ?thesis using subs qs foldl_py_min_finite [of q qs']
    by (simp add: active_interval_def)
qed

text \<open>
  C5, as the code has it. For a server id with at least one subscriber, whose intervals are
  the finite values \<open>qs\<close>: the server is due exactly when there is no cache entry, or the
  time since the cached fetch is at least the minimum of the intervals, or the cached detail
  level differs from the active one, which is \<open>full\<close> when a subscriber asks for \<open>full\<close> and
  \<open>summary\<close> otherwise. The difference counts in both directions: a cache that holds \<open>full\<close>
  while the active level is \<open>summary\<close> makes the server due as well.
\<close>

theorem tick_due_iff:
  assumes "subs \<noteq> []" and "map Subscription_interval_s subs = map Finite qs"
  shows "due now subs cache \<longleftrightarrow>
           cache = None
           \<or> (\<exists>c. cache = Some c
                \<and> (Min (set qs) \<le> now - CacheEntry_fetched_at c
                    \<or> CacheEntry_detail c
                       \<noteq> (if \<exists>sub \<in> set subs. Subscription_detail sub = ''full''
                           then ''full'' else ''summary'')))"
proof (cases cache)
  case None
  then show ?thesis by (simp add: due_def)
next
  case (Some c)
  have "active_detail subs
        = (if \<exists>sub \<in> set subs. Subscription_detail sub = ''full'' then ''full'' else ''summary'')"
    by (simp add: active_detail_def list_ex_iff)
  then show ?thesis using Some active_interval_finite [OF assms]
    by (simp add: due_def float_le_def)
qed

text \<open>C5, witness: two subscribers, 10 s at \<open>summary\<close> and 3 s at \<open>full\<close>; four seconds after
  the cached fetch the server is due.\<close>

theorem tick_due_iff_witness:
  "due 100 [\<lparr>Subscription_interval_s = Finite 10, Subscription_detail = ''summary''\<rparr>,
            \<lparr>Subscription_interval_s = Finite 3, Subscription_detail = ''full''\<rparr>]
       (Some \<lparr>CacheEntry_payload = (), CacheEntry_fetched_at = 96, CacheEntry_detail = ''full''\<rparr>)"
  using tick_due_iff [of "[\<lparr>Subscription_interval_s = Finite 10, Subscription_detail = ''summary''\<rparr>,
            \<lparr>Subscription_interval_s = Finite 3, Subscription_detail = ''full''\<rparr>]" "[10, 3]" 100
       "Some \<lparr>CacheEntry_payload = (), CacheEntry_fetched_at = 96, CacheEntry_detail = ''full''\<rparr>"]
  by simp

text \<open>
  C5 as stated fails on a downgrade: one subscriber at \<open>summary\<close> with an interval of 10 s,
  a cache that holds \<open>full\<close> and was fetched one second ago. The code finds the server due;
  by the claim it is not.
\<close>

theorem tick_due_downgrade_counterexample:
  "due 100 [\<lparr>Subscription_interval_s = Finite 10, Subscription_detail = ''summary''\<rparr>]
       (Some \<lparr>CacheEntry_payload = (), CacheEntry_fetched_at = 99, CacheEntry_detail = ''full''\<rparr>)
   \<and> \<not> spec_due 100 [\<lparr>Subscription_interval_s = Finite 10, Subscription_detail = ''summary''\<rparr>]
       (Some \<lparr>CacheEntry_payload = (), CacheEntry_fetched_at = 99, CacheEntry_detail = ''full''\<rparr>)"
  by (simp add: due_def spec_due_def active_interval_def active_detail_def float_le_def)

section \<open>Properties of the registry\<close>

lemma find_existing_iff:
  "find_existing server servers =
     (if list_ex (\<lambda>existing. Server_host existing = Server_host server
                    \<and> Server_port existing = Server_port server
                    \<and> Server_user existing = Server_user server) servers
      then Some (Exn ''ValueError'' ''Server already exists for host/port/user'') else None)"
  by (induction servers) auto

text \<open>
  C10. \<open>ServerRepository.add\<close> raises ValueError exactly when a server of the registry has
  the host, port and user of the new one, and then leaves the file as it was; otherwise it
  returns the server, and the file holds the previous list with the new server at its end.
\<close>

theorem repo_add_duplicate_or_append:
  "(if \<exists>existing \<in> set (repo_load file).
         Server_host existing = Server_host server \<and> Server_port existing = Server_port server
         \<and> Server_user existing = Server_user server
    then repo_add server file =
           (Inl (Exn ''ValueError'' ''Server already exists for host/port/user''), file)
    else repo_add server file = (Inr server, repo_save (repo_load file @ [server]))
         \<and> repo_load (snd (repo_add server file)) = repo_load file @ [server])"
  by (auto simp: repo_add_def find_existing_iff list_ex_iff repo_load_def repo_save_def)


text \<open>C10, witness: the same host, port and user under another id is refused and the file
  stays; into an empty registry the server is appended.\<close>

theorem repo_add_duplicate_or_append_witness:
  "repo_add (sample_server\<lparr>Server_id := ''srv-2''\<rparr>) (Some [sample_server])
     = (Inl (Exn ''ValueError'' ''Server already exists for host/port/user''),
        Some [sample_server])
   \<and> repo_add sample_server None = (Inr sample_server, Some [sample_server])"
  using repo_add_duplicate_or_append [of "Some [sample_server]" "sample_server\<lparr>Server_id := ''srv-2''\<rparr>"]
    repo_add_duplicate_or_append [of None sample_server]
  by (simp add: repo_load_def repo_save_def)


section \<open>Properties of the redaction\<close>

lemma contains_sublist: "contains sub s \<longleftrightarrow> sublist sub s"
  by (induction s) (auto simp: sublist_Cons_right)

lemma replace_from_absent:
  "old \<noteq> [] \<Longrightarrow> \<not> sublist old s \<Longrightarrow> replace_from old new s = s"
proof (induction s)
  case Nil
  show ?case by simp
next
  case (Cons c cs)
  from Cons.prems(2) have "\<not> prefix old (c # cs)" and "\<not> sublist old cs"
    by (auto simp: sublist_Cons_right)
  then show ?case using Cons by simp
qed

lemma replace_absent: "old \<noteq> [] \<Longrightarrow> \<not> sublist old s \<Longrightarrow> replace s old new = s"
  by (simp add: replace_def replace_from_absent)

lemma strip_sublist: "sublist (strip l) l"
proof -
  have "sublist (rev (dropWhile isspace (rev (dropWhile isspace l)))) (dropWhile isspace l)"
    by (simp add: sublist_rev_left)
  moreover have "sublist (dropWhile isspace l) l" by simp
  ultimately show ?thesis unfolding strip_def by (rule sublist_order.order_trans)
qed

lemma sublist_prepend: "sublist l s \<Longrightarrow> sublist l (p @ s)"
proof -
  assume "sublist l s"
  then obtain ps ss where "s = ps @ l @ ss" by (auto simp: sublist_def)
  then have "p @ s = (p @ ps) @ l @ ss" by simp
  then show ?thesis unfolding sublist_def by blast
qed

lemma splitlines_from_sublist:
  "l \<in> set (splitlines_from cur s) \<Longrightarrow> sublist l (cur @ s)"
proof (induction cur s rule: splitlines_from.induct)
  case (1 cur)
  then show ?case by (auto split: if_splits)
next
  case (2 cur c)
  then show ?case by (auto split: if_splits)
next
  case (3 cur c d cs)
  show ?case
  proof (cases "c = CHR 0x0D \<and> d = CHR 0x0A")
    case True
    with 3 have "l = cur \<or> sublist l cs" by auto
    then show ?thesis
    proof
      assume "l = cur" then show ?thesis by simp
    next
      assume "sublist l cs"
      then have "sublist l ((cur @ [c, d]) @ cs)" by (rule sublist_prepend)
      then show ?thesis by simp
    qed
  next
    case nocrlf: False
    show ?thesis
    proof (cases "is_linebreak c")
      case True
      with 3 nocrlf have "l = cur \<or> sublist l (d # cs)" by auto
      then show ?thesis
      proof
        assume "l = cur" then show ?thesis by simp
      next
        assume "sublist l (d # cs)"
        then have "sublist l ((cur @ [c]) @ d # cs)" by (rule sublist_prepend)
        then show ?thesis by simp
      qed
    next
      case False
      with 3 nocrlf show ?thesis by auto
    qed
  qed
qed

lemma splitlines_sublist: "l \<in> set (splitlines s) \<Longrightarrow> sublist l s"
  using splitlines_from_sublist [of l "[]" s] by (simp add: splitlines_def)

lemma redact_lines_eq:
  "redact_lines secret ls =
     map (\<lambda>line. replace line secret ''[redacted]'') (filter (\<lambda>line. strip line \<noteq> secret) ls)"
  by (induction ls) auto

lemma redact_lines_absent:
  assumes "secret \<noteq> []" and "\<forall>l \<in> set ls. \<not> sublist secret l"
  shows "redact_lines secret ls = ls"
  using assms(2)
proof (induction ls)
  case Nil
  show ?case by simp
next
  case (Cons l ls)
  then have a: "\<not> sublist secret l" by simp
  have "strip l \<noteq> secret"
  proof
    assume "strip l = secret"
    then have "sublist secret l" using strip_sublist [of l] by simp
    with a show False by simp
  qed
  with Cons a assms(1) show ?case by (simp add: replace_absent)
qed

lemma splitlines_from_Nil_iff: "splitlines_from cur s = [] \<longleftrightarrow> cur = [] \<and> s = []"
  by (induction cur s rule: splitlines_from.induct) auto

lemma join_Cons: "xs \<noteq> [] \<Longrightarrow> join sep (x # xs) = x @ sep @ join sep xs"
  by (cases xs) simp_all

lemma is_linebreak_LF: "is_linebreak (CHR 0x0A)"
  by (simp add: is_linebreak_def linebreak_chars_def)

lemma is_linebreak_CR: "is_linebreak (CHR 0x0D)"
  by (simp add: is_linebreak_def linebreak_chars_def)

lemma join_splitlines_from:
  assumes "\<forall>c \<in> set s. is_linebreak c \<longrightarrow> c = CHR 0x0A" and "cur @ s \<noteq> []"
  shows "join NL (splitlines_from cur s) @ (if s \<noteq> [] \<and> last s = CHR 0x0A then NL else [])
         = cur @ s"
  using assms
proof (induction cur s rule: splitlines_from.induct)
  case (1 cur)
  then show ?case by simp
next
  case (2 cur c)
  show ?case
  proof (cases "is_linebreak c")
    case True
    then have "c = CHR 0x0A" using "2.prems"(1) by simp
    then show ?thesis using True by (simp add: NL_def)
  next
    case False
    then have "c \<noteq> CHR 0x0A" using is_linebreak_LF by auto
    then show ?thesis using False by simp
  qed
next
  case (3 cur c d cs)
  have nocr: "\<not> (c = CHR 0x0D \<and> d = CHR 0x0A)"
  proof
    assume "c = CHR 0x0D \<and> d = CHR 0x0A"
    then have "c = CHR 0x0D" by simp
    moreover have "is_linebreak c \<longrightarrow> c = CHR 0x0A" using "3.prems"(1) by simp
    ultimately show False using is_linebreak_CR by simp
  qed
  have rest: "\<forall>x \<in> set (d # cs). is_linebreak x \<longrightarrow> x = CHR 0x0A"
    using "3.prems"(1) by simp
  have l: "last (c # d # cs) = last (d # cs)" by simp
  show ?case
  proof (cases "is_linebreak c")
    case True
    then have c: "c = CHR 0x0A" using "3.prems"(1) by simp
    have ne: "splitlines_from [] (d # cs) \<noteq> []" by (simp add: splitlines_from_Nil_iff)
    have ih: "join NL (splitlines_from [] (d # cs))
               @ (if d # cs \<noteq> [] \<and> last (d # cs) = CHR 0x0A then NL else []) = [] @ d # cs"
      by (rule "3.IH"(2) [OF nocr True rest]) simp
    have sp: "splitlines_from cur (c # d # cs) = cur # splitlines_from [] (d # cs)"
      by (simp only: splitlines_from.simps(3) nocr True if_False if_True)
    have "join NL (splitlines_from cur (c # d # cs)) = cur @ NL @ join NL (splitlines_from [] (d # cs))"
      unfolding sp using ne by (rule join_Cons)
    then have "join NL (splitlines_from cur (c # d # cs))
               @ (if d # cs \<noteq> [] \<and> last (d # cs) = CHR 0x0A then NL else [])
              = cur @ NL @ d # cs"
      using ih by simp
    then show ?thesis unfolding l using c by (simp add: NL_def)
  next
    case False
    have ih: "join NL (splitlines_from (cur @ [c]) (d # cs))
               @ (if d # cs \<noteq> [] \<and> last (d # cs) = CHR 0x0A then NL else []) = (cur @ [c]) @ d # cs"
      by (rule "3.IH"(3) [OF nocr False rest]) simp
    have sp: "splitlines_from cur (c # d # cs) = splitlines_from (cur @ [c]) (d # cs)"
      by (simp only: splitlines_from.simps(3) nocr False if_False)
    show ?thesis unfolding sp l using ih by simp
  qed
qed

lemma endswith_NL: "endswith s NL \<longleftrightarrow> s \<noteq> [] \<and> last s = CHR 0x0A"
proof (cases s rule: rev_cases)
  case Nil
  then show ?thesis by (simp add: endswith_def NL_def)
next
  case (snoc ys y)
  then show ?thesis by (auto simp: endswith_def NL_def)
qed

lemma prefix_of_long_append:
  assumes "prefix xs (ys @ zs)" and "length xs \<le> length ys"
  shows "prefix xs ys"
  using assms by (auto simp: prefix_append)

lemma replace_from_first:
  assumes "old \<noteq> []" and "\<not> sublist old (pre @ butlast old)"
  shows "replace_from old new (pre @ old @ rest) = pre @ new @ replace_from old new rest"
  using assms(2)
proof (induction pre)
  case Nil
  obtain c os where old: "old = c # os" using assms(1) by (cases old) auto
  have "replace_from old new (old @ rest) = new @ replace_from old new (drop (length old) (old @ rest))"
    unfolding old by simp
  then show ?case by simp
next
  case (Cons p ps)
  have np: "\<not> prefix old ((p # ps) @ old @ rest)"
  proof
    assume pre: "prefix old ((p # ps) @ old @ rest)"
    have "old = butlast old @ [last old]" using assms(1) by simp
    then have "old @ rest = butlast old @ last old # rest"
      by (metis append.assoc append_Cons append_Nil)
    then have "(p # ps) @ old @ rest = ((p # ps) @ butlast old) @ last old # rest"
      by simp
    then have "prefix old (((p # ps) @ butlast old) @ last old # rest)"
      using pre by (simp only:)
    moreover have "length old \<le> length ((p # ps) @ butlast old)" by simp
    ultimately have "prefix old ((p # ps) @ butlast old)" by (rule prefix_of_long_append)
    then show False using Cons.prems by auto
  qed
  have "\<not> sublist old (ps @ butlast old)"
    using Cons.prems by (auto simp: sublist_Cons_right)
  then have ih: "replace_from old new (ps @ old @ rest) = ps @ new @ replace_from old new rest"
    by (rule Cons.IH)
  have "replace_from old new ((p # ps) @ old @ rest) = p # replace_from old new (ps @ old @ rest)"
    using np by simp
  then show ?case using ih by simp
qed

text \<open>
  C7, as the code has it. For every text and every non-empty secret, \<open>redact_output\<close>
  splits the text at its line boundaries, drops every line that equals the secret once its
  surrounding whitespace is stripped, replaces in each remaining line the occurrences of the
  secret, found from the left without overlap, by \<open>[redacted]\<close> (a line without the secret
  stays as it is, and the first occurrence in a line is replaced where it stands), joins the
  lines with \<open>\n\<close>, and appends \<open>\n\<close> exactly when the input ends with \<open>\n\<close>, so that the
  result ends with \<open>\n\<close> whenever the input does. A text that does not contain the secret and
  whose only line boundary character is \<open>\n\<close> is returned unchanged.
\<close>

theorem redact_output_lines:
  assumes "secret \<noteq> []"
  shows "redact_output text (Some secret)
           = join NL (map (\<lambda>line. replace line secret ''[redacted]'')
                        (filter (\<lambda>line. strip line \<noteq> secret) (splitlines text)))
             @ (if endswith text NL then NL else [])
         \<and> (\<not> contains secret line \<longrightarrow> replace line secret ''[redacted]'' = line)
         \<and> (\<not> contains secret (pre @ butlast secret) \<longrightarrow>
               replace (pre @ secret @ rest) secret ''[redacted]''
                 = pre @ ''[redacted]'' @ replace rest secret ''[redacted]'')
         \<and> (endswith text NL \<longrightarrow> endswith (redact_output text (Some secret)) NL)
         \<and> (\<not> contains secret text \<and> (\<forall>c \<in> set text. is_linebreak c \<longrightarrow> c = CHR 0x0A)
              \<longrightarrow> redact_output text (Some secret) = text)"
proof -
  have a: "redact_output text (Some secret)
           = join NL (map (\<lambda>line. replace line secret ''[redacted]'')
                        (filter (\<lambda>line. strip line \<noteq> secret) (splitlines text)))
             @ (if endswith text NL then NL else [])"
  proof (cases "text = []")
    case True
    then show ?thesis by (simp add: redact_output_def splitlines_def endswith_def NL_def)
  next
    case False
    then show ?thesis using assms by (simp add: redact_output_def redact_lines_eq Let_def)
  qed
  have r1: "replace line secret ''[redacted]'' = line" if "\<not> contains secret line"
    using that assms by (simp add: replace_absent contains_sublist)
  have r2: "replace (pre @ secret @ rest) secret ''[redacted]''
              = pre @ ''[redacted]'' @ replace rest secret ''[redacted]''"
    if "\<not> contains secret (pre @ butlast secret)"
    using that assms replace_from_first [of secret pre "''[redacted]''" rest]
    by (simp add: replace_def contains_sublist)
  have b: "endswith (redact_output text (Some secret)) NL" if "endswith text NL"
    using that a by (simp add: endswith_def NL_def)
  have c: "redact_output text (Some secret) = text"
    if absent: "\<not> contains secret text"
      and lf: "\<forall>c \<in> set text. is_linebreak c \<longrightarrow> c = CHR 0x0A"
  proof (cases "text = []")
    case True
    then show ?thesis by (simp add: redact_output_def)
  next
    case ne: False
    have "\<forall>l \<in> set (splitlines text). \<not> sublist secret l"
    proof
      fix l assume "l \<in> set (splitlines text)"
      then have "sublist l text" by (rule splitlines_sublist)
      then show "\<not> sublist secret l"
        using absent by (auto simp: contains_sublist dest: sublist_order.order_trans)
    qed
    then have "redact_lines secret (splitlines text) = splitlines text"
      using assms by (rule redact_lines_absent [rotated])
    then have "redact_output text (Some secret)
               = join NL (splitlines_from [] text) @ (if endswith text NL then NL else [])"
      using assms ne by (simp add: redact_output_def Let_def splitlines_def)
    also have "\<dots> = text"
      using join_splitlines_from [of "text" "[]"] lf ne by (simp add: endswith_NL)
    finally show ?thesis .
  qed
  from a r1 r2 b c show ?thesis by blast
qed

text \<open>C7, witness: a line that is the secret between blanks is dropped, an occurrence inside
  a line is replaced, and a text without the secret comes back unchanged.\<close>

theorem redact_output_lines_witness:
  "redact_output (''ok'' @ NL @ '' pw '' @ NL @ ''xpwy'' @ NL) (Some ''pw'')
     = ''ok'' @ NL @ ''x[redacted]y'' @ NL
   \<and> redact_output (''ok'' @ NL) (Some ''pw'') = ''ok'' @ NL"
  using redact_output_lines [where secret = "''pw''"
        and ?text = "''ok'' @ NL @ '' pw '' @ NL @ ''xpwy'' @ NL"]
    redact_output_lines [where secret = "''pw''" and ?text = "''ok'' @ NL"]
  by (simp add: splitlines_def is_linebreak_def linebreak_chars_def strip_def
      isspace_def whitespace_chars_def replace_def endswith_def NL_def)

text \<open>
  C7 as stated fails on the output of a pseudo-terminal, whose lines end with \<open>\r\n\<close>: the
  text does not contain the secret, and it is not returned unchanged, for the lines are
  joined again with \<open>\n\<close>.
\<close>

theorem redact_output_crlf_counterexample:
  "\<not> contains ''pw'' (''ok'' @ [CHR 0x0D, CHR 0x0A])
   \<and> redact_output (''ok'' @ [CHR 0x0D, CHR 0x0A]) (Some ''pw'') = ''ok'' @ [CHR 0x0A]
   \<and> redact_output (''ok'' @ [CHR 0x0D, CHR 0x0A]) (Some ''pw'') \<noteq> ''ok'' @ [CHR 0x0D, CHR 0x0A]"
  by (simp add: redact_output_def splitlines_def is_linebreak_def linebreak_chars_def strip_def
      isspace_def whitespace_chars_def replace_def endswith_def NL_def)


section \<open>Properties of the collector\<close>

lemma run_command_trace:
  "trace (snd (run_command client L command use_pty login_shell w)) =
     trace w @ [Exec \<lparr>request_command =
                        (if login_shell then ''bash -lc '' @ shlex_quote L command else command),
                      request_get_pty = use_pty, request_stdin = []\<rparr>]"
  by (simp add: run_command_def exec_command_def Let_def split: prod.splits exec_outcome.splits)

lemma run_sudo_command_trace:
  "trace (snd (run_sudo_command client L command password user True w)) =
     trace w @ [Exec (sudo_request L command password user)]"
  by (simp add: run_sudo_command_def exec_command_def sudo_request_def Let_def
      split: prod.splits exec_outcome.splits)

lemma bind_w_pure:
  assumes "\<And>a w1. snd (f a w1) = w1"
  shows "snd (bind_w m f w) = snd (m w)"
proof (cases "m w")
  case (Pair r w1)
  then show ?thesis using assms by (cases r) (simp_all add: bind_w_def)
qed

lemma truthy_value_Some: "s \<noteq> [] \<Longrightarrow> truthy_value (Some s) = Some s"
  by (simp add: truthy_value_def truthy_def)

lemma truthy_value_None_iff: "truthy_value p = None \<longleftrightarrow> p = None \<or> p = Some []"
  by (cases p) (simp_all add: truthy_value_def truthy_def)

lemma fetch_pm2_details_as_root:
  assumes "pw \<noteq> []"
  shows "trace (snd (fetch_pm2_details client L (Some ''root'') home (Some pw) w)) =
           trace w @ [Exec (sudo_request L (build_pm2_script L home) pw ''root'')]"
proof -
  have "snd (fetch_pm2_details client L (Some ''root'') home (Some pw) w)
        = snd (run_sudo_command client L (build_pm2_script L home) pw ''root'' True w)"
    unfolding fetch_pm2_details_def Let_def
    using assms
    by (simp add: truthy_value_Some)
       (rule bind_w_pure, simp add: return_w_def lift_w_def split: option.splits list.splits)
  then show ?thesis by (simp add: run_sudo_command_trace)
qed

lemma sudo_request_explicit:
  "sudo_request L command password user =
     \<lparr>request_command =
        ''stty -echo >/dev/null 2>&1 || true; sudo -S -p '' @ [CHR 0x27, CHR 0x27]
        @ '' -u '' @ shlex_quote L user @ '' /bin/sh -c ''
        @ shlex_quote L (''bash -lc '' @ shlex_quote L command)
        @ ''; status=$?; stty echo >/dev/null 2>&1 || true; exit $status'',
      request_get_pty = True, request_stdin = password @ NL\<rparr>"
  by (simp add: sudo_request_def sudo_command_text_def Let_def)

lemma supervisor_retry:
  assumes first: "run_command client L supervisor_command False True w = (Inr result, w1)"
    and sig: "contains ''permission denied'' (supervisor_joined result)
              \<or> contains ''error:'' (supervisor_joined result)"
    and user: "Server_user server \<noteq> ''root''"
    and pw: "Server_password server = Some pw" "pw \<noteq> []"
  shows "supervisor_probe client L server w =
           bind_w (run_sudo_command client L ''supervisorctl status || true'' pw ''root'' True)
             (\<lambda>result2. lift_w (parse_supervisor L (stripped_lines (stdout result2)))) w1"
    and "trace (snd (supervisor_probe client L server w)) =
           trace w1 @ [Exec (sudo_request L ''supervisorctl status || true'' pw ''root'')]"
proof -
  show a: "supervisor_probe client L server w =
           bind_w (run_sudo_command client L ''supervisorctl status || true'' pw ''root'' True)
             (\<lambda>result2. lift_w (parse_supervisor L (stripped_lines (stdout result2)))) w1"
    using assms
    by (simp add: supervisor_probe_def fetch_supervisor_def login_password_def bind_w_def
        Let_def truthy_value_Some)
  have "snd (supervisor_probe client L server w)
        = snd (run_sudo_command client L ''supervisorctl status || true'' pw ''root'' True w1)"
    unfolding a by (rule bind_w_pure) (simp add: lift_w_def)
  then show "trace (snd (supervisor_probe client L server w)) =
           trace w1 @ [Exec (sudo_request L ''supervisorctl status || true'' pw ''root'')]"
    by (simp add: run_sudo_command_trace)
qed

lemma supervisor_no_retry:
  assumes first: "run_command client L supervisor_command False True w = (Inr result, w1)"
    and no: "\<not> (contains ''permission denied'' (supervisor_joined result)
                 \<or> contains ''error:'' (supervisor_joined result))
             \<or> Server_user server = ''root'' \<or> Server_password server = None
             \<or> Server_password server = Some []"
  shows "supervisor_probe client L server w =
           (parse_supervisor L (stripped_lines (stdout result)), w1)"
proof -
  have "\<not> (contains ''permission denied'' (supervisor_joined result)
            \<or> contains ''error:'' (supervisor_joined result))
        \<or> login_password server = None \<or> login_password server = Some []
        \<or> Server_user server = ''root''"
    using no by (auto simp: login_password_def)
  then have "(if (contains ''permission denied'' (supervisor_joined result)
                  \<or> contains ''error:'' (supervisor_joined result))
                 \<and> Server_user server \<noteq> ''root''
              then truthy_value (login_password server) else None) = None"
    by (auto simp: truthy_value_None_iff)
  then show ?thesis using first
    by (simp add: supervisor_probe_def fetch_supervisor_def bind_w_def Let_def lift_w_def)
qed

lemma pm2_fallback:
  assumes first: "fetch_pm2_details client L (Server_pm2_user server) (Server_pm2_home server)
                    (login_password server) w = (Inr (info, msg), w1)"
    and fails: "truthy (Pm2Info_error info)"
    and user: "Server_user server \<noteq> ''root''"
    and pw: "Server_password server = Some pw" "pw \<noteq> []"
  shows "pm2_probe client L server w =
           bind_w (fetch_pm2_details client L (Some ''root'') (fallback_home server) (Some pw))
             (\<lambda>(pm2_info2, message2). return_w pm2_info2) w1"
    and "trace (snd (pm2_probe client L server w)) =
           trace w1 @ [Exec (sudo_request L (build_pm2_script L (fallback_home server)) pw ''root'')]"
proof -
  show a: "pm2_probe client L server w =
           bind_w (fetch_pm2_details client L (Some ''root'') (fallback_home server) (Some pw))
             (\<lambda>(pm2_info2, message2). return_w pm2_info2) w1"
    using assms by (simp add: pm2_probe_def bind_w_def truthy_def)
  have "snd (pm2_probe client L server w)
        = snd (fetch_pm2_details client L (Some ''root'') (fallback_home server) (Some pw) w1)"
    unfolding a by (rule bind_w_pure) (simp add: return_w_def split: prod.splits)
  then show "trace (snd (pm2_probe client L server w)) =
           trace w1 @ [Exec (sudo_request L (build_pm2_script L (fallback_home server)) pw ''root'')]"
    using pw(2) by (simp add: fetch_pm2_details_as_root)
qed

lemma pm2_no_fallback:
  assumes first: "fetch_pm2_details client L (Server_pm2_user server) (Server_pm2_home server)
                    (login_password server) w = (Inr (info, msg), w1)"
    and no: "\<not> truthy (Pm2Info_error info) \<or> Server_user server = ''root''
             \<or> Server_password server = None \<or> Server_password server = Some []"
  shows "pm2_probe client L server w = (Inr info, w1)"
  using assms by (auto simp: pm2_probe_def bind_w_def truthy_def return_w_def)

text \<open>
  C6. The trace holds every request sent to the host. When the first attempt of the
  supervisor status probe completes, the probe has sent one request. If its output carries
  the signature of a permission error (\<open>permission denied\<close>, or \<open>error:\<close>, in the lowered
  text), the login user is not \<open>root\<close> and the password is not empty, exactly one request
  follows: the escalation, \<open>sudo -S -u root\<close> around \<open>supervisorctl status\<close>, on a
  pseudo-terminal with the password on stdin, and the probe parses its output. Without the
  signature, as \<open>root\<close>, or with no password or an empty one, no request follows and the
  probe parses the lines of the first attempt. The pm2 probe of \<open>collect_stats\<close> does the
  same after a first attempt that returns: if it reports an error (of any kind, a permission
  error among them), the user is not \<open>root\<close> and the password is not empty, exactly one
  request follows, the pm2 listing under \<open>sudo -S -u root\<close> with the password on stdin;
  otherwise none follows and the result of the first attempt stands.
\<close>

theorem escalation_retry_policy:
  "(run_command client L
      ''command -v supervisorctl >/dev/null 2>&1 && supervisorctl status || true''
      False True w = (Inr result, w1) \<longrightarrow>
      trace w1 = trace w @ [Exec \<lparr>request_command = ''bash -lc '' @ shlex_quote L
                                   ''command -v supervisorctl >/dev/null 2>&1 && supervisorctl status || true'',
                                 request_get_pty = False, request_stdin = []\<rparr>]
      \<and> ((contains ''permission denied'' (supervisor_joined result)
            \<or> contains ''error:'' (supervisor_joined result))
           \<and> Server_user server \<noteq> ''root'' \<and> Server_password server = Some pw \<and> pw \<noteq> [] \<longrightarrow>
           supervisor_probe client L server w =
             bind_w (run_sudo_command client L ''supervisorctl status || true'' pw ''root'' True)
               (\<lambda>result2. lift_w (parse_supervisor L (stripped_lines (stdout result2)))) w1
           \<and> trace (snd (supervisor_probe client L server w)) =
               trace w1
               @ [Exec \<lparr>request_command =
                         ''stty -echo >/dev/null 2>&1 || true; sudo -S -p '' @ [CHR 0x27, CHR 0x27]
                         @ '' -u '' @ shlex_quote L ''root'' @ '' /bin/sh -c ''
                         @ shlex_quote L (''bash -lc '' @ shlex_quote L ''supervisorctl status || true'')
                         @ ''; status=$?; stty echo >/dev/null 2>&1 || true; exit $status'',
                       request_get_pty = True, request_stdin = pw @ NL\<rparr>])
      \<and> (\<not> (contains ''permission denied'' (supervisor_joined result)
               \<or> contains ''error:'' (supervisor_joined result))
           \<or> Server_user server = ''root'' \<or> Server_password server = None
           \<or> Server_password server = Some [] \<longrightarrow>
           supervisor_probe client L server w =
             (parse_supervisor L (stripped_lines (stdout result)), w1)))
   \<and> (fetch_pm2_details client L (Server_pm2_user server) (Server_pm2_home server)
         (login_password server) w = (Inr (info, msg), v1) \<longrightarrow>
      (truthy (Pm2Info_error info)
           \<and> Server_user server \<noteq> ''root'' \<and> Server_password server = Some pw \<and> pw \<noteq> [] \<longrightarrow>
           pm2_probe client L server w =
             bind_w (fetch_pm2_details client L (Some ''root'') (fallback_home server) (Some pw))
               (\<lambda>(pm2_info2, message2). return_w pm2_info2) v1
           \<and> trace (snd (pm2_probe client L server w)) =
               trace v1
               @ [Exec \<lparr>request_command =
                         ''stty -echo >/dev/null 2>&1 || true; sudo -S -p '' @ [CHR 0x27, CHR 0x27]
                         @ '' -u '' @ shlex_quote L ''root'' @ '' /bin/sh -c ''
                         @ shlex_quote L (''bash -lc ''
                             @ shlex_quote L (build_pm2_script L (fallback_home server)))
                         @ ''; status=$?; stty echo >/dev/null 2>&1 || true; exit $status'',
                       request_get_pty = True, request_stdin = pw @ NL\<rparr>])
      \<and> (\<not> truthy (Pm2Info_error info) \<or> Server_user server = ''root''
           \<or> Server_password server = None \<or> Server_password server = Some [] \<longrightarrow>
           pm2_probe client L server w = (Inr info, v1)))"
  (is "(?A \<longrightarrow> ?X) \<and> (?C \<longrightarrow> ?Y)")
proof -
  have sup: ?X
    if a: "run_command client L supervisor_command False True w = (Inr result, w1)"
  proof (intro conjI impI)
    show "trace w1 = trace w @ [Exec \<lparr>request_command = ''bash -lc '' @ shlex_quote L
                                   ''command -v supervisorctl >/dev/null 2>&1 && supervisorctl status || true'',
                                 request_get_pty = False, request_stdin = []\<rparr>]"
      using run_command_trace [of client L supervisor_command False True w] a
      by (simp add: supervisor_command_def)
  next
    assume c: "(contains ''permission denied'' (supervisor_joined result)
            \<or> contains ''error:'' (supervisor_joined result))
           \<and> Server_user server \<noteq> ''root'' \<and> Server_password server = Some pw \<and> pw \<noteq> []"
    then have c0: "contains ''permission denied'' (supervisor_joined result)
            \<or> contains ''error:'' (supervisor_joined result)"
      and c1: "Server_user server \<noteq> ''root''" and c2: "Server_password server = Some pw"
      and c3: "pw \<noteq> []" by simp_all
    show "supervisor_probe client L server w =
             bind_w (run_sudo_command client L ''supervisorctl status || true'' pw ''root'' True)
               (\<lambda>result2. lift_w (parse_supervisor L (stripped_lines (stdout result2)))) w1"
      by (rule supervisor_retry(1) [OF a c0 c1 c2 c3])
  next
    assume c: "(contains ''permission denied'' (supervisor_joined result)
            \<or> contains ''error:'' (supervisor_joined result))
           \<and> Server_user server \<noteq> ''root'' \<and> Server_password server = Some pw \<and> pw \<noteq> []"
    then have c0: "contains ''permission denied'' (supervisor_joined result)
            \<or> contains ''error:'' (supervisor_joined result)"
      and c1: "Server_user server \<noteq> ''root''" and c2: "Server_password server = Some pw"
      and c3: "pw \<noteq> []" by simp_all
    show "trace (snd (supervisor_probe client L server w)) =
               trace w1
               @ [Exec \<lparr>request_command =
                         ''stty -echo >/dev/null 2>&1 || true; sudo -S -p '' @ [CHR 0x27, CHR 0x27]
                         @ '' -u '' @ shlex_quote L ''root'' @ '' /bin/sh -c ''
                         @ shlex_quote L (''bash -lc '' @ shlex_quote L ''supervisorctl status || true'')
                         @ ''; status=$?; stty echo >/dev/null 2>&1 || true; exit $status'',
                       request_get_pty = True, request_stdin = pw @ NL\<rparr>]"
      using supervisor_retry(2) [OF a c0 c1 c2 c3] by (simp add: sudo_request_explicit)
  next
    assume f: "\<not> (contains ''permission denied'' (supervisor_joined result)
               \<or> contains ''error:'' (supervisor_joined result))
           \<or> Server_user server = ''root'' \<or> Server_password server = None
           \<or> Server_password server = Some []"
    show "supervisor_probe client L server w =
             (parse_supervisor L (stripped_lines (stdout result)), w1)"
      by (rule supervisor_no_retry [OF a f])
  qed
  have pm: ?Y if a: ?C
  proof (intro conjI impI)
    assume c: "truthy (Pm2Info_error info)
           \<and> Server_user server \<noteq> ''root'' \<and> Server_password server = Some pw \<and> pw \<noteq> []"
    then have c0: "truthy (Pm2Info_error info)"
      and c1: "Server_user server \<noteq> ''root''" and c2: "Server_password server = Some pw"
      and c3: "pw \<noteq> []" by simp_all
    show "pm2_probe client L server w =
             bind_w (fetch_pm2_details client L (Some ''root'') (fallback_home server) (Some pw))
               (\<lambda>(pm2_info2, message2). return_w pm2_info2) v1"
      by (rule pm2_fallback(1) [OF a c0 c1 c2 c3])
  next
    assume c: "truthy (Pm2Info_error info)
           \<and> Server_user server \<noteq> ''root'' \<and> Server_password server = Some pw \<and> pw \<noteq> []"
    then have c0: "truthy (Pm2Info_error info)"
      and c1: "Server_user server \<noteq> ''root''" and c2: "Server_password server = Some pw"
      and c3: "pw \<noteq> []" by simp_all
    show "trace (snd (pm2_probe client L server w)) =
               trace v1
               @ [Exec \<lparr>request_command =
                         ''stty -echo >/dev/null 2>&1 || true; sudo -S -p '' @ [CHR 0x27, CHR 0x27]
                         @ '' -u '' @ shlex_quote L ''root'' @ '' /bin/sh -c ''
                         @ shlex_quote L (''bash -lc ''
                             @ shlex_quote L (build_pm2_script L (fallback_home server)))
                         @ ''; status=$?; stty echo >/dev/null 2>&1 || true; exit $status'',
                       request_get_pty = True, request_stdin = pw @ NL\<rparr>]"
      using pm2_fallback(2) [OF a c0 c1 c2 c3] by (simp add: sudo_request_explicit)
  next
    assume f: "\<not> truthy (Pm2Info_error info) \<or> Server_user server = ''root''
           \<or> Server_password server = None \<or> Server_password server = Some []"
    show "pm2_probe client L server w = (Inr info, v1)"
      by (rule pm2_no_fallback [OF a f])
  qed
  show ?thesis
  proof (rule conjI; rule impI)
    assume h: ?A
    show ?X by (rule sup [OF h [folded supervisor_command_def]])
  next
    assume h: ?C
    show ?Y by (rule pm [OF h])
  qed
qed

lemma first_attempt_denied:
  "run_command denying_client sample_lib
     ''command -v supervisorctl >/dev/null 2>&1 && supervisorctl status || true'' False True
     \<lparr>remote = (), trace = []\<rparr>
     = (Inr \<lparr>stdout = [], stderr = ''Permission denied'', exit_code = 1\<rparr>,
        \<lparr>remote = (),
         trace = [Exec \<lparr>request_command =
                          ''bash -lc command -v supervisorctl >/dev/null 2>&1 && supervisorctl status || true'',
                        request_get_pty = False, request_stdin = []\<rparr>]\<rparr>)"
  by (simp add: run_command_def exec_command_def denying_client_def sample_lib_def)

lemma denied_signature:
  "contains ''permission denied''
     (supervisor_joined \<lparr>stdout = [], stderr = ''Permission denied'', exit_code = 1\<rparr>)"
  by code_simp

lemma first_attempt_unreachable:
  "run_command unreachable_client sample_lib
     ''command -v supervisorctl >/dev/null 2>&1 && supervisorctl status || true'' False True
     \<lparr>remote = (), trace = []\<rparr>
     = (Inr \<lparr>stdout = ''error: connection refused'', stderr = [], exit_code = 0\<rparr>,
        \<lparr>remote = (),
         trace = [Exec \<lparr>request_command =
                          ''bash -lc command -v supervisorctl >/dev/null 2>&1 && supervisorctl status || true'',
                        request_get_pty = False, request_stdin = []\<rparr>]\<rparr>)"
  by (simp add: run_command_def exec_command_def unreachable_client_def sample_lib_def)

lemma unreachable_signature:
  "contains ''error:''
     (supervisor_joined \<lparr>stdout = ''error: connection refused'', stderr = [], exit_code = 0\<rparr>)"
  by code_simp

lemma pm2_script_plain:
  "build_pm2_script sample_lib None =
     ''set -o pipefail; [ -f ~/.bashrc ] && . ~/.bashrc >/dev/null 2>&1; [ -f ~/.profile ] && . ~/.profile >/dev/null 2>&1; [ -s ~/.nvm/nvm.sh ] && . ~/.nvm/nvm.sh >/dev/null 2>&1;  pm2 jlist''"
  by code_simp

lemma pm2_script_root:
  "build_pm2_script sample_lib (Some ''/root/.pm2'') =
     ''set -o pipefail; [ -f ~/.bashrc ] && . ~/.bashrc >/dev/null 2>&1; [ -f ~/.profile ] && . ~/.profile >/dev/null 2>&1; [ -s ~/.nvm/nvm.sh ] && . ~/.nvm/nvm.sh >/dev/null 2>&1; PM2_HOME=/root/.pm2 pm2 jlist''"
  by code_simp

lemma first_pm2_denied:
  "fetch_pm2_details denying_client sample_lib (Server_pm2_user sample_server)
     (Server_pm2_home sample_server) (login_password sample_server) \<lparr>remote = (), trace = []\<rparr>
   = (Inr (pm2_error_info ''Permission denied'', Some ''Permission denied''),
      \<lparr>remote = (),
       trace = [Exec \<lparr>request_command = ''bash -lc '' @ build_pm2_script sample_lib None,
                       request_get_pty = True, request_stdin = []\<rparr>]\<rparr>)"
  by (simp add: fetch_pm2_details_def bind_w_def run_command_def exec_command_def
      denying_client_def sample_lib_def sample_server_def truthy_value_def truthy_def return_w_def
      strip_def isspace_def whitespace_chars_def Let_def)


text \<open>C6, witness: the login user \<open>deploy\<close> with the password \<open>s3cret\<close>, with a library
  whose \<open>shlex.quote\<close> returns its argument. On a host that answers \<open>Permission denied\<close>,
  and on one whose \<open>supervisorctl\<close> prints \<open>error: connection refused\<close>, the supervisor
  probe sends the first request and then the one \<open>sudo -S -u root\<close> request with the
  password on stdin; without a password, or as \<open>root\<close>, it sends the first request only.
  The pm2 probe sends the listing and then the listing under \<open>sudo -S -u root\<close> with
  \<open>PM2_HOME=/root/.pm2\<close>; without a password it sends the listing only.\<close>

theorem escalation_retry_policy_witness:
  "trace (snd (supervisor_probe denying_client sample_lib sample_server \<lparr>remote = (), trace = []\<rparr>))
     = [Exec \<lparr>request_command =
                 ''bash -lc command -v supervisorctl >/dev/null 2>&1 && supervisorctl status || true'',
               request_get_pty = False, request_stdin = []\<rparr>,
        Exec \<lparr>request_command =
                 ''stty -echo >/dev/null 2>&1 || true; sudo -S -p '' @ [CHR 0x27, CHR 0x27]
                 @ '' -u root /bin/sh -c bash -lc supervisorctl status || true; status=$?; stty echo >/dev/null 2>&1 || true; exit $status'',
               request_get_pty = True, request_stdin = ''s3cret'' @ [CHR 0x0A]\<rparr>]
   \<and> trace (snd (supervisor_probe unreachable_client sample_lib sample_server \<lparr>remote = (), trace = []\<rparr>))
     = [Exec \<lparr>request_command =
                 ''bash -lc command -v supervisorctl >/dev/null 2>&1 && supervisorctl status || true'',
               request_get_pty = False, request_stdin = []\<rparr>,
        Exec \<lparr>request_command =
                 ''stty -echo >/dev/null 2>&1 || true; sudo -S -p '' @ [CHR 0x27, CHR 0x27]
                 @ '' -u root /bin/sh -c bash -lc supervisorctl status || true; status=$?; stty echo >/dev/null 2>&1 || true; exit $status'',
               request_get_pty = True, request_stdin = ''s3cret'' @ [CHR 0x0A]\<rparr>]
   \<and> trace (snd (supervisor_probe denying_client sample_lib (sample_server\<lparr>Server_password := None\<rparr>) \<lparr>remote = (), trace = []\<rparr>))
     = [Exec \<lparr>request_command =
                 ''bash -lc command -v supervisorctl >/dev/null 2>&1 && supervisorctl status || true'',
               request_get_pty = False, request_stdin = []\<rparr>]
   \<and> trace (snd (supervisor_probe denying_client sample_lib (sample_server\<lparr>Server_user := ''root''\<rparr>) \<lparr>remote = (), trace = []\<rparr>))
     = [Exec \<lparr>request_command =
                 ''bash -lc command -v supervisorctl >/dev/null 2>&1 && supervisorctl status || true'',
               request_get_pty = False, request_stdin = []\<rparr>]
   \<and> trace (snd (pm2_probe denying_client sample_lib sample_server \<lparr>remote = (), trace = []\<rparr>))
     = [Exec \<lparr>request_command =
                 ''bash -lc set -o pipefail; [ -f ~/.bashrc ] && . ~/.bashrc >/dev/null 2>&1; [ -f ~/.profile ] && . ~/.profile >/dev/null 2>&1; [ -s ~/.nvm/nvm.sh ] && . ~/.nvm/nvm.sh >/dev/null 2>&1;  pm2 jlist'',
               request_get_pty = True, request_stdin = []\<rparr>,
        Exec \<lparr>request_command =
                 ''stty -echo >/dev/null 2>&1 || true; sudo -S -p '' @ [CHR 0x27, CHR 0x27]
                 @ '' -u root /bin/sh -c bash -lc set -o pipefail; [ -f ~/.bashrc ] && . ~/.bashrc >/dev/null 2>&1; [ -f ~/.profile ] && . ~/.profile >/dev/null 2>&1; [ -s ~/.nvm/nvm.sh ] && . ~/.nvm/nvm.sh >/dev/null 2>&1; PM2_HOME=/root/.pm2 pm2 jlist; status=$?; stty echo >/dev/null 2>&1 || true; exit $status'',
               request_get_pty = True, request_stdin = ''s3cret'' @ [CHR 0x0A]\<rparr>]
   \<and> trace (snd (pm2_probe denying_client sample_lib (sample_server\<lparr>Server_password := None\<rparr>) \<lparr>remote = (), trace = []\<rparr>))
     = [Exec \<lparr>request_command =
                 ''bash -lc set -o pipefail; [ -f ~/.bashrc ] && . ~/.bashrc >/dev/null 2>&1; [ -f ~/.profile ] && . ~/.profile >/dev/null 2>&1; [ -s ~/.nvm/nvm.sh ] && . ~/.nvm/nvm.sh >/dev/null 2>&1;  pm2 jlist'',
               request_get_pty = True, request_stdin = []\<rparr>]"
  (is "?S1 \<and> ?S2 \<and> ?S3 \<and> ?S4 \<and> ?P1 \<and> ?P2")
proof -
  let ?first = "\<lparr>request_command =
                 ''bash -lc command -v supervisorctl >/dev/null 2>&1 && supervisorctl status || true'',
               request_get_pty = False, request_stdin = []\<rparr>"
  let ?w1 = "\<lparr>remote = (), trace = [Exec ?first]\<rparr>"
  let ?v1 = "\<lparr>remote = (),
       trace = [Exec \<lparr>request_command = ''bash -lc '' @ build_pm2_script sample_lib None,
                       request_get_pty = True, request_stdin = []\<rparr>]\<rparr>"
  have q: "shlex_quote sample_lib = (\<lambda>s. s)"
    by (simp add: sample_lib_def)
  have u: "Server_user sample_server \<noteq> ''root'' \<and> Server_password sample_server = Some ''s3cret''
           \<and> ''s3cret'' \<noteq> []"
    by (simp add: sample_server_def)
  have n: "Server_password (sample_server\<lparr>Server_password := None\<rparr>) = None"
    by simp
  have r: "Server_user (sample_server\<lparr>Server_user := ''root''\<rparr>) = ''root''"
    by simp
  have t: "truthy (Pm2Info_error (pm2_error_info ''Permission denied''))"
    by (simp add: pm2_error_info_def truthy_def)
  have h: "fallback_home sample_server = Some ''/root/.pm2''"
    by (simp add: fallback_home_def sample_server_def truthy_value_def truthy_def)
  have "trace (snd (supervisor_probe denying_client sample_lib sample_server \<lparr>remote = (), trace = []\<rparr>))
     = trace ?w1
       @ [Exec \<lparr>request_command =
                         ''stty -echo >/dev/null 2>&1 || true; sudo -S -p '' @ [CHR 0x27, CHR 0x27]
                         @ '' -u '' @ shlex_quote sample_lib ''root'' @ '' /bin/sh -c ''
                         @ shlex_quote sample_lib
                             (''bash -lc '' @ shlex_quote sample_lib ''supervisorctl status || true'')
                         @ ''; status=$?; stty echo >/dev/null 2>&1 || true; exit $status'',
                       request_get_pty = True, request_stdin = ''s3cret'' @ NL\<rparr>]"
    using escalation_retry_policy [where client = denying_client and L = sample_lib
        and w = "\<lparr>remote = (), trace = []\<rparr>" and server = sample_server and pw = "''s3cret''"
        and result = "\<lparr>stdout = [], stderr = ''Permission denied'', exit_code = 1\<rparr>" and ?w1.0 = ?w1]
      first_attempt_denied denied_signature u
    by blast
  then have s1: ?S1
    by (simp add: q NL_def)
  have "trace (snd (supervisor_probe unreachable_client sample_lib sample_server \<lparr>remote = (), trace = []\<rparr>))
     = trace ?w1
       @ [Exec \<lparr>request_command =
                         ''stty -echo >/dev/null 2>&1 || true; sudo -S -p '' @ [CHR 0x27, CHR 0x27]
                         @ '' -u '' @ shlex_quote sample_lib ''root'' @ '' /bin/sh -c ''
                         @ shlex_quote sample_lib
                             (''bash -lc '' @ shlex_quote sample_lib ''supervisorctl status || true'')
                         @ ''; status=$?; stty echo >/dev/null 2>&1 || true; exit $status'',
                       request_get_pty = True, request_stdin = ''s3cret'' @ NL\<rparr>]"
    using escalation_retry_policy [where client = unreachable_client and L = sample_lib
        and w = "\<lparr>remote = (), trace = []\<rparr>" and server = sample_server and pw = "''s3cret''"
        and result = "\<lparr>stdout = ''error: connection refused'', stderr = [], exit_code = 0\<rparr>" and ?w1.0 = ?w1]
      first_attempt_unreachable unreachable_signature u
    by blast
  then have s2: ?S2
    by (simp add: q NL_def)
  have "supervisor_probe denying_client sample_lib (sample_server\<lparr>Server_password := None\<rparr>) \<lparr>remote = (), trace = []\<rparr>
        = (parse_supervisor sample_lib (stripped_lines (stdout \<lparr>stdout = [], stderr = ''Permission denied'', exit_code = 1\<rparr>)), ?w1)"
    using escalation_retry_policy [where client = denying_client and L = sample_lib
        and w = "\<lparr>remote = (), trace = []\<rparr>" and server = "(sample_server\<lparr>Server_password := None\<rparr>)"
        and result = "\<lparr>stdout = [], stderr = ''Permission denied'', exit_code = 1\<rparr>" and ?w1.0 = ?w1]
      first_attempt_denied n
    by blast
  then have s3: ?S3
    by simp
  have "supervisor_probe denying_client sample_lib (sample_server\<lparr>Server_user := ''root''\<rparr>) \<lparr>remote = (), trace = []\<rparr>
        = (parse_supervisor sample_lib (stripped_lines (stdout \<lparr>stdout = [], stderr = ''Permission denied'', exit_code = 1\<rparr>)), ?w1)"
    using escalation_retry_policy [where client = denying_client and L = sample_lib
        and w = "\<lparr>remote = (), trace = []\<rparr>" and server = "(sample_server\<lparr>Server_user := ''root''\<rparr>)"
        and result = "\<lparr>stdout = [], stderr = ''Permission denied'', exit_code = 1\<rparr>" and ?w1.0 = ?w1]
      first_attempt_denied r
    by blast
  then have s4: ?S4
    by simp
  have "trace (snd (pm2_probe denying_client sample_lib sample_server \<lparr>remote = (), trace = []\<rparr>))
     = trace ?v1
       @ [Exec \<lparr>request_command =
                         ''stty -echo >/dev/null 2>&1 || true; sudo -S -p '' @ [CHR 0x27, CHR 0x27]
                         @ '' -u '' @ shlex_quote sample_lib ''root'' @ '' /bin/sh -c ''
                         @ shlex_quote sample_lib (''bash -lc ''
                             @ shlex_quote sample_lib
                                 (build_pm2_script sample_lib (fallback_home sample_server)))
                         @ ''; status=$?; stty echo >/dev/null 2>&1 || true; exit $status'',
                       request_get_pty = True, request_stdin = ''s3cret'' @ NL\<rparr>]"
    using escalation_retry_policy [where client = denying_client and L = sample_lib
        and w = "\<lparr>remote = (), trace = []\<rparr>" and server = sample_server and pw = "''s3cret''"
        and info = "pm2_error_info ''Permission denied''" and msg = "Some ''Permission denied''"
        and ?v1.0 = ?v1]
      first_pm2_denied t u
    by blast
  then have p1: ?P1
    by (simp add: q h NL_def pm2_script_plain pm2_script_root)
  have f: "fetch_pm2_details denying_client sample_lib (Server_pm2_user (sample_server\<lparr>Server_password := None\<rparr>))
     (Server_pm2_home (sample_server\<lparr>Server_password := None\<rparr>)) (login_password (sample_server\<lparr>Server_password := None\<rparr>)) \<lparr>remote = (), trace = []\<rparr>
   = (Inr (pm2_error_info ''Permission denied'', Some ''Permission denied''), ?v1)"
    by (simp add: fetch_pm2_details_def bind_w_def run_command_def exec_command_def
        denying_client_def sample_lib_def sample_server_def login_password_def truthy_value_def
        truthy_def return_w_def strip_def isspace_def whitespace_chars_def Let_def)
  have "pm2_probe denying_client sample_lib (sample_server\<lparr>Server_password := None\<rparr>) \<lparr>remote = (), trace = []\<rparr>
        = (Inr (pm2_error_info ''Permission denied''), ?v1)"
    using escalation_retry_policy [where client = denying_client and L = sample_lib
        and w = "\<lparr>remote = (), trace = []\<rparr>" and server = "(sample_server\<lparr>Server_password := None\<rparr>)"
        and info = "pm2_error_info ''Permission denied''" and msg = "Some ''Permission denied''"
        and ?v1.0 = ?v1]
      f n
    by blast
  then have p2: ?P2
    by (simp add: pm2_script_plain)
  from s1 s2 s3 s4 p1 p2 show ?thesis
    by (intro conjI)
qed

lemma pm2_proc_int: "pm2_proc L (JInt 1) = Inl int_has_no_get"
  by (simp add: pm2_proc_def obj_get_def bind_e_def mem_bytes_of_def py_type_name_def
      int_has_no_get_def)

lemma run_echo:
  "run_command echo_one_client L command use_pty login_shell w =
     (Inr \<lparr>stdout = ''[1]'', stderr = [], exit_code = 0\<rparr>,
      \<lparr>remote = remote w,
       trace = trace w @ [Exec \<lparr>request_command =
                        (if login_shell then ''bash -lc '' @ shlex_quote L command else command),
                      request_get_pty = use_pty, request_stdin = []\<rparr>]\<rparr>)"
  by (simp add: run_command_def exec_command_def echo_one_client_def)

lemma splitlines_one: "splitlines ''[1]'' = [''[1]'']"
  by (simp add: splitlines_def is_linebreak_def linebreak_chars_def)

lemma split_one: "split ''[1]'' = [''[1]'']"
  by (simp add: split_def isspace_def whitespace_chars_def)

lemma fetch_cpu_echo: "\<exists>r w1. fetch_cpu echo_one_client L w = (Inr r, w1)"
  by (simp add: fetch_cpu_def bind_w_def run_echo return_w_def Let_def)

lemma fetch_memory_echo: "\<exists>r w1. fetch_memory echo_one_client L w = (Inr r, w1)"
  by (simp add: fetch_memory_def bind_w_def run_echo return_w_def lift_w_def bind_e_def
      splitlines_one startswith_def)

lemma fetch_uptime_echo: "\<exists>r w1. fetch_uptime echo_one_client L w = (Inr r, w1)"
  by (simp add: fetch_uptime_def bind_w_def run_echo return_w_def)

lemma fetch_disk_echo: "\<exists>r w1. fetch_disk echo_one_client L w = (Inr r, w1)"
  by (simp add: fetch_disk_def bind_w_def run_echo return_w_def splitlines_one Let_def)

lemma pm2_probe_echo:
  assumes "json_raw_decode L ''[1]'' = Some (JArr [JInt 1])"
  shows "fst (pm2_probe echo_one_client L sample_server w) = Inl int_has_no_get"
  using assms
  by (simp add: pm2_probe_def fetch_pm2_details_def bind_w_def run_echo lift_w_def bind_e_def
      pm2_proc_int sample_server_def login_password_def truthy_value_def truthy_def Let_def)

text \<open>
  C4 fails on the code. On a host whose pm2 listing is the JSON array \<open>[1]\<close>, the loop of
  \<open>fetch_pm2_details\<close> guards \<open>pm2_env\<close> and \<open>monit\<close> with \<open>isinstance(proc, dict)\<close> and then
  calls \<open>proc.get("pm_id")\<close> on the int: \<open>collect_stats\<close> raises AttributeError and returns
  no snapshot. This holds for every JSON decoder that reads the text \<open>[1]\<close> as the array of
  the int 1.
\<close>

theorem collect_stats_raises_on_non_object:
  assumes "json_raw_decode L ''[1]'' = Some (JArr [JInt 1])"
  shows "fst (collect_stats echo_one_client L sample_server \<lparr>remote = (), trace = []\<rparr>)
           = Inl int_has_no_get"
proof -
  obtain r1 w1 where f1: "fetch_cpu echo_one_client L \<lparr>remote = (), trace = []\<rparr> = (Inr r1, w1)"
    using fetch_cpu_echo by blast
  obtain r2 w2 where f2: "fetch_memory echo_one_client L w1 = (Inr r2, w2)"
    using fetch_memory_echo by blast
  obtain r3 w3 where f3: "fetch_uptime echo_one_client L w2 = (Inr r3, w3)"
    using fetch_uptime_echo by blast
  obtain r4 w4 where f4: "fetch_disk echo_one_client L w3 = (Inr r4, w4)"
    using fetch_disk_echo by blast
  obtain e5 w5 where f5: "pm2_probe echo_one_client L sample_server w4 = (e5, w5)"
    by (cases "pm2_probe echo_one_client L sample_server w4")
  then have "e5 = Inl int_has_no_get"
    using pm2_probe_echo [OF assms, of w4] by simp
  with f1 f2 f3 f4 f5 show ?thesis
    by (simp add: collect_stats_def bind_w_def split: prod.splits)
qed

text \<open>C4, witness: the same run with a decoder that reads \<open>[1]\<close>.\<close>

theorem collect_stats_raises_on_non_object_witness:
  "fst (collect_stats echo_one_client sample_lib sample_server \<lparr>remote = (), trace = []\<rparr>)
     = Inl (Exn ''AttributeError''
              ([CHR 0x27] @ ''int'' @ [CHR 0x27] @ '' object has no attribute '' @ [CHR 0x27]
               @ ''get'' @ [CHR 0x27]))"
  using collect_stats_raises_on_non_object [of sample_lib]
  by (simp add: sample_lib_def int_has_no_get_def)

text \<open>
  C1 fails on the code. \<open>HostStats\<close> declares no field \<open>cpu\<close> (and app/stats/models.py
  defines no class \<open>CpuInfo\<close>): whatever CPU section \<open>build_error_stats\<close> or \<open>collect_stats\<close>
  passes to the constructor, the snapshot is the same, and the error snapshot consists of
  the twelve declared fields, none of them a CPU section.
\<close>

theorem snapshot_has_no_cpu:
  "HostStats_init server_id server_name host user port tags error cpu memory uptime disk pm2
     supervisor
   = HostStats_init server_id server_name host user port tags error cpu' memory uptime disk pm2
       supervisor
   \<and> build_error_stats server message =
       \<lparr>HostStats_server_id = Server_id server, HostStats_server_name = Server_name server,
        HostStats_host = Server_host server, HostStats_user = Server_user server,
        HostStats_port = Server_port server, HostStats_tags = Server_tags server,
        HostStats_error = Some message,
        HostStats_memory = \<lparr>MemoryInfo_total_bytes = None, MemoryInfo_used_bytes = None,
                            MemoryInfo_total_human = ''n/a'', MemoryInfo_used_human = ''n/a''\<rparr>,
        HostStats_uptime = \<lparr>UptimeInfo_seconds = None, UptimeInfo_human = ''n/a''\<rparr>,
        HostStats_disk = \<lparr>DiskInfo_mount = ''/'', DiskInfo_total_bytes = None,
                          DiskInfo_used_bytes = None, DiskInfo_total_human = ''n/a'',
                          DiskInfo_used_human = ''n/a''\<rparr>,
        HostStats_pm2 = pm2_error_info message,
        HostStats_supervisor = \<lparr>SupervisorInfo_total = None, SupervisorInfo_running = None,
                                SupervisorInfo_details = None\<rparr>\<rparr>"
  by (simp add: HostStats_init_def build_error_stats_def)


section \<open>Properties of the session pool\<close>

lemma call_collect_stats_detail:
  "call_collect_stats client L server [''detail''] w = (Inl detail_error, w)"
  by (simp add: call_collect_stats_def collect_stats_params_def detail_error_def)

lemma collect_try_cases:
  "collect_try P L server detail entry w =
     (case ensure_connected_locked P server entry w of
        (Inl e, entry1, w1) \<Rightarrow> (Inl e, entry1, w1)
      | (Inr c, entry1, w1) \<Rightarrow> (Inl detail_error, entry1, w1))"
  by (simp add: collect_try_def call_collect_stats_detail split: prod.splits sum.splits)

lemma collect_try_raises: "\<exists>exc. fst (collect_try P L server detail entry w) = Inl exc"
  by (auto simp: collect_try_cases split: prod.splits sum.splits)

lemma pool_close_trace:
  "pool_close P c w = (r, w2) \<Longrightarrow> trace w2 = trace w @ [Close c]"
  by (auto simp: pool_close_def Let_def split: prod.splits)

text \<open>What the handler does when the body of the \<open>try\<close> raises \<open>exc\<close> and the close of the
  cached client, if there is one, returns: the error snapshot is the result, the entry of the
  server holds the message and no client, and the close is the only event.\<close>

lemma pool_collect_error_snapshot:
  assumes t: "collect_try P L server detail (fst (get_entry pool (Server_id server))) w
                = (Inl exc, entry1, w1)"
    and cl: "Entry_client entry1 = None \<and> w2 = w1
             \<or> (\<exists>c. Entry_client entry1 = Some c \<and> pool_close P c w1 = (None, w2))"
  shows "fst (pool_collect P L server detail pool w)
           = Inr (build_error_stats server (exn_msg exc))"
    and "pool_entries (fst (snd (pool_collect P L server detail pool w))) (Server_id server)
           = Some \<lparr>Entry_client = None, Entry_last_error = Some (exn_msg exc)\<rparr>"
    and "snd (snd (pool_collect P L server detail pool w)) = w2"
    and "trace w2 = trace w1 @ (case Entry_client entry1 of None \<Rightarrow> [] | Some c \<Rightarrow> [Close c])"
proof -
  obtain entry pool1 where g: "get_entry pool (Server_id server) = (entry, pool1)"
    by (cases "get_entry pool (Server_id server)")
  with t have t1: "collect_try P L server detail entry w = (Inl exc, entry1, w1)" by simp
  obtain c0 e0 where e1: "entry1 = \<lparr>Entry_client = c0, Entry_last_error = e0\<rparr>"
    by (cases entry1) simp
  have r: "pool_collect P L server detail pool w
           = (Inr (build_error_stats server (exn_msg exc)),
              put_entry pool1 (Server_id server)
                \<lparr>Entry_client = None, Entry_last_error = Some (exn_msg exc)\<rparr>, w2)"
    using g t1 e1 cl by (cases c0) (auto simp: pool_collect_def Let_def)
  show "fst (pool_collect P L server detail pool w)
           = Inr (build_error_stats server (exn_msg exc))"
    by (simp add: r)
  show "pool_entries (fst (snd (pool_collect P L server detail pool w))) (Server_id server)
           = Some \<lparr>Entry_client = None, Entry_last_error = Some (exn_msg exc)\<rparr>"
    by (simp add: r put_entry_def)
  show "snd (snd (pool_collect P L server detail pool w)) = w2"
    by (simp add: r)
  show "trace w2 = trace w1 @ (case Entry_client entry1 of None \<Rightarrow> [] | Some c \<Rightarrow> [Close c])"
    using cl by (auto dest: pool_close_trace)
qed

text \<open>
  C3 fails on the code. The server \<open>srv-1\<close> has the client 7 in its entry, the transport of
  the client is no longer active, and \<open>close()\<close> of the client raises OSError. Ensuring the
  connection closes the stale client and raises; the handler records the message and calls
  \<open>entry.client.close()\<close> again, outside any \<open>try\<close>: the exception leaves \<open>collect\<close>, no
  snapshot is returned, and the entry keeps the client. The trace holds the two closes.
\<close>

theorem pool_collect_propagates_close_error:
  "fst (pool_collect close_fails L sample_server ''full'' stale_pool \<lparr>remote = 0, trace = []\<rparr>)
     = Inl (Exn ''OSError'' ''[Errno 9] Bad file descriptor'')
   \<and> pool_entries
        (fst (snd (pool_collect close_fails L sample_server ''full'' stale_pool
                     \<lparr>remote = 0, trace = []\<rparr>))) ''srv-1''
     = Some \<lparr>Entry_client = Some 7,
             Entry_last_error = Some ''[Errno 9] Bad file descriptor''\<rparr>
   \<and> trace (snd (snd (pool_collect close_fails L sample_server ''full'' stale_pool
                         \<lparr>remote = 0, trace = []\<rparr>)))
     = [Close 7, Close 7]"
  by (simp add: pool_collect_def collect_try_def ensure_connected_locked_def pool_close_def
      is_active_def close_fails_def close_error_def get_entry_def put_entry_def stale_pool_def
      sample_server_def Let_def)

text \<open>Whatever the network does, a call of \<open>collect\<close> ends in the handler: it raises, or it
  returns an error snapshot and the entry of the server holds no client afterwards.\<close>

lemma pool_collect_never_succeeds:
  "(\<exists>e. fst (pool_collect P L server detail pool w) = Inl e)
   \<or> (\<exists>msg. fst (pool_collect P L server detail pool w) = Inr (build_error_stats server msg)
          \<and> pool_entries (fst (snd (pool_collect P L server detail pool w))) (Server_id server)
              = Some \<lparr>Entry_client = None, Entry_last_error = Some msg\<rparr>)"
proof -
  obtain entry pool1 where g: "get_entry pool (Server_id server) = (entry, pool1)"
    by (cases "get_entry pool (Server_id server)")
  obtain r entry1 w1 where t: "collect_try P L server detail entry w = (r, entry1, w1)"
    by (cases "collect_try P L server detail entry w") auto
  obtain exc where r: "r = Inl exc"
    using collect_try_raises [of P L server detail entry w] t by auto
  obtain c0 e0 where e1: "entry1 = \<lparr>Entry_client = c0, Entry_last_error = e0\<rparr>"
    by (cases entry1) simp
  show ?thesis
  proof (cases c0)
    case None
    then show ?thesis using g t r e1 by (simp add: pool_collect_def put_entry_def Let_def)
  next
    case (Some c)
    obtain x w2 where p: "pool_close P c w1 = (x, w2)" by (cases "pool_close P c w1")
    show ?thesis using g t r e1 Some p
      by (cases x) (simp_all add: pool_collect_def put_entry_def Let_def)
  qed
qed

text \<open>
  C2 fails on the code. In a network where every connection succeeds and every transport
  stays active, two consecutive calls of \<open>collect\<close> for one server connect twice: the call
  \<open>collect_stats(client, server, detail=detail)\<close> raises TypeError, since \<open>collect_stats\<close>
  has no parameter \<open>detail\<close>, and the handler closes the client that was just connected.
  The trace of the two calls is: connect, close client 0, connect, close client 1; both
  calls return the error snapshot of the TypeError.
\<close>

theorem pool_collect_twice_reconnects:
  "(case pool_collect always_up L sample_server ''full'' empty_pool \<lparr>remote = 0, trace = []\<rparr> of
      (stats1, pool1, w1) \<Rightarrow>
        (case pool_collect always_up L sample_server ''full'' pool1 w1 of
           (stats2, pool2, w2) \<Rightarrow>
             trace w2 = [Connect ''srv-1'', Close 0, Connect ''srv-1'', Close 1]
             \<and> stats1 = Inr (build_error_stats sample_server (exn_msg detail_error))
             \<and> stats2 = Inr (build_error_stats sample_server (exn_msg detail_error))
             \<and> HostStats_error (build_error_stats sample_server (exn_msg detail_error))
                = Some (exn_msg detail_error)
             \<and> pool_entries pool1 ''srv-1''
                = Some \<lparr>Entry_client = None, Entry_last_error = Some (exn_msg detail_error)\<rparr>))"
  by (simp add: pool_collect_def collect_try_cases ensure_connected_locked_def reconnect_def
      pool_connect_def pool_close_def is_active_def always_up_def get_entry_def put_entry_def
      empty_pool_def new_entry_def sample_server_def build_error_stats_def HostStats_init_def
      Let_def)

end
